theory Spec2Isabelle
  imports Main "HOL-Library.AList"
begin

text \<open>
  A shallow embedding of the request-dispatch pipeline of the LLM gateway: the router
  with its failure memory, the sliding-window rate limiter, the error normalization of
  the provider adapters, the request validation, the response transformer, the dispatch
  loops of the request handler, the error formatting of the HTTP server and the token
  refresh. Each function of the TypeScript source is a function here under its own name;
  mutable objects are records passed in and returned; an exception is the left summand
  of the result; clock values, UUIDs and the answers of the network are arguments. The
  definitions come first, then the properties, one section per component.
\<close>

section \<open>Router (src/router/router.ts)\<close>

text \<open>
  Times are epoch milliseconds, read from \<open>Date.now()\<close>; they are integers here.
  Every method that reads the clock takes the value read as an argument. The reads that
  happen inside one synchronous call of \<open>selectProvider\<close> are taken to return the same
  millisecond; \<open>getNextProvider\<close> takes two values, the one \<open>markFailed\<close> reads and the
  one the selection reads.
\<close>

record ProviderModel =
  provider :: string
  model :: string
  priority :: int

record ModelAlias =
  alias_name :: string
  providers :: "ProviderModel list"

text \<open>
  The two JavaScript \<open>Map\<close>s of the router are only looked up, written at one key or
  filtered entry by entry, never enumerated in order, so they are partial functions.
\<close>

record Router =
  modelAliases :: "string \<rightharpoonup> ModelAlias"
  failedProviders :: "string \<rightharpoonup> int"
  failureTTL :: int

text \<open>The constructor: later aliases of the same name replace earlier ones.\<close>

definition Router_new :: "ModelAlias list \<Rightarrow> int \<Rightarrow> Router" where
  "Router_new config_modelAliases ttl =
     \<lparr> modelAliases = foldl (\<lambda>m a. m(alias_name a \<mapsto> a)) Map.empty config_modelAliases,
       failedProviders = Map.empty,
       failureTTL = ttl \<rparr>"

text \<open>
  \<open>resolveModelAlias\<close>: the alias's providers sorted by priority (the JavaScript sort is
  stable, as \<open>sort_key\<close> is), or the split of \<open>provider/model\<close> at the first slash, or
  the exception \<open>Unknown model\<close> (\<open>Inl\<close> with its message).
\<close>

definition resolveModelAlias :: "Router \<Rightarrow> string \<Rightarrow> string + ProviderModel list" where
  "resolveModelAlias r m =
     (case modelAliases r m of
        Some a \<Rightarrow> Inr (sort_key priority (providers a))
      | None \<Rightarrow>
          if CHR ''/'' \<in> set m
          then Inr [\<lparr> provider = takeWhile (\<lambda>c. c \<noteq> CHR ''/'') m,
                      model = tl (dropWhile (\<lambda>c. c \<noteq> CHR ''/'') m),
                      priority = 0 \<rparr>]
          else Inl (''Unknown model: '' @ m))"

definition markFailed :: "Router \<Rightarrow> int \<Rightarrow> string \<Rightarrow> Router" where
  "markFailed r now p = r\<lparr> failedProviders := (failedProviders r)(p \<mapsto> now) \<rparr>"

definition clearExpiredFailures :: "Router \<Rightarrow> int \<Rightarrow> Router" where
  "clearExpiredFailures r now =
     r\<lparr> failedProviders :=
          (\<lambda>p. case failedProviders r p of
                  None \<Rightarrow> None
                | Some timestamp \<Rightarrow>
                    if now - timestamp > failureTTL r then None else Some timestamp) \<rparr>"

definition isProviderFailed :: "Router \<Rightarrow> int \<Rightarrow> string \<Rightarrow> bool" where
  "isProviderFailed r now p =
     (case failedProviders r p of
        None \<Rightarrow> False
      | Some timestamp \<Rightarrow> now - timestamp \<le> failureTTL r)"

text \<open>The loop of \<open>selectProvider\<close> that pushes each candidate on one of two arrays.\<close>

fun classify ::
  "Router \<Rightarrow> int \<Rightarrow> ProviderModel list \<Rightarrow> ProviderModel list \<Rightarrow> ProviderModel list
     \<Rightarrow> ProviderModel list \<times> ProviderModel list" where
  "classify r now [] available failed = (available, failed)"
| "classify r now (candidate # rest) available failed =
     (if isProviderFailed r now (provider candidate)
      then classify r now rest available (failed @ [candidate])
      else classify r now rest (available @ [candidate]) failed)"

text \<open>\<open>xs[0]\<close> of a JavaScript array: \<open>None\<close> stands for \<open>null\<close>.\<close>

definition first_or_null :: "'a list \<Rightarrow> 'a option" where
  "first_or_null xs = (case xs of [] \<Rightarrow> None | x # _ \<Rightarrow> Some x)"

definition selectProvider ::
  "Router \<Rightarrow> int \<Rightarrow> ProviderModel list \<Rightarrow> ProviderModel option \<times> Router" where
  "selectProvider r now candidates =
     (if length candidates = 0 then (None, r)
      else
        let r' = clearExpiredFailures r now;
            (available, failed) = classify r' now candidates [] [];
            available' = sort_key priority available;
            failed' = sort_key priority failed
        in if length available' > 0 then (first_or_null available', r')
           else (if length failed' > 0 then first_or_null failed' else None, r'))"

text \<open>
  \<open>getNextProvider\<close>: the failure is recorded before the alias is resolved, so the
  router is changed also when resolution throws.
\<close>

definition getNextProvider ::
  "Router \<Rightarrow> int \<Rightarrow> int \<Rightarrow> string \<Rightarrow> string
     \<Rightarrow> (string + ProviderModel option) \<times> Router" where
  "getNextProvider r t_mark t_select m failedProvider =
     (let r1 = markFailed r t_mark failedProvider
      in case resolveModelAlias r1 m of
           Inl e \<Rightarrow> (Inl e, r1)
         | Inr candidates \<Rightarrow>
             (let (selected, r2) = selectProvider r1 t_select candidates
              in (Inr selected, r2)))"

section \<open>RateLimiter (src/rate-limiter/rate-limiter.ts)\<close>

record RateLimitConfig =
  cfg_provider :: string
  requestsPerMinute :: int
  maxQueueSize :: int

text \<open>
  A queued request holds the \<open>resolve\<close> and \<open>reject\<close> callbacks of one pending promise.
  The promise is named by a number, and calling \<open>resolve()\<close> or \<open>reject(error)\<close> is
  recorded in the limiter's \<open>settled\<close> log as the settlement of that promise.
\<close>

record QueuedRequest =
  waiter :: nat
  enqueuedAt :: int

datatype settlement = Resolved | Rejected string

text \<open>The promise \<open>acquire\<close> returns: already resolved, pending, or already rejected.\<close>

datatype promise = PromiseResolved | PromisePending nat | PromiseRejected string

text \<open>
  \<open>configs\<close> and \<open>requestTimestamps\<close> are only read and written at one key. \<open>queues\<close>
  and \<open>timers\<close> are enumerated by \<open>dispose\<close>, so they keep the insertion order of the
  JavaScript \<open>Map\<close>: an association list, and the list of the providers that have a
  running interval timer. \<open>promises\<close> counts the pending promises created so far.
\<close>

record RateLimiter =
  configs :: "string \<rightharpoonup> RateLimitConfig"
  requestTimestamps :: "string \<rightharpoonup> int list"
  queues :: "(string \<times> QueuedRequest list) list"
  timers :: "string list"
  settled :: "(nat \<times> settlement) list"
  promises :: nat

definition RateLimiter_new :: "RateLimitConfig list \<Rightarrow> RateLimiter" where
  "RateLimiter_new cs =
     \<lparr> configs = foldl (\<lambda>m c. m(cfg_provider c \<mapsto> c)) Map.empty cs,
       requestTimestamps = Map.empty,
       queues = [],
       timers = [],
       settled = [],
       promises = 0 \<rparr>"

text \<open>\<open>Array.prototype.findIndex\<close>: \<open>None\<close> stands for \<open>-1\<close>.\<close>

fun findIndex :: "('a \<Rightarrow> bool) \<Rightarrow> 'a list \<Rightarrow> nat option" where
  "findIndex P [] = None"
| "findIndex P (x # xs) =
     (if P x then Some 0 else map_option Suc (findIndex P xs))"

definition cleanWindow :: "RateLimiter \<Rightarrow> int \<Rightarrow> string \<Rightarrow> RateLimiter" where
  "cleanWindow rl now p =
     (case requestTimestamps rl p of
        None \<Rightarrow> rl
      | Some timestamps \<Rightarrow>
          (let cutoff = now - 60000
           in case findIndex (\<lambda>t. t > cutoff) timestamps of
                None \<Rightarrow> rl\<lparr> requestTimestamps := (requestTimestamps rl)(p \<mapsto> []) \<rparr>
              | Some validIdx \<Rightarrow>
                  if validIdx > 0
                  then rl\<lparr> requestTimestamps :=
                            (requestTimestamps rl)(p \<mapsto> drop validIdx timestamps) \<rparr>
                  else rl))"

definition startTimer :: "RateLimiter \<Rightarrow> string \<Rightarrow> RateLimiter" where
  "startTimer rl p = (if p \<in> set (timers rl) then rl else rl\<lparr> timers := timers rl @ [p] \<rparr>)"

definition stopTimer :: "RateLimiter \<Rightarrow> string \<Rightarrow> RateLimiter" where
  "stopTimer rl p =
     (if p \<in> set (timers rl) then rl\<lparr> timers := filter (\<lambda>q. q \<noteq> p) (timers rl) \<rparr> else rl)"

text \<open>\<open>map.get(k) ?? []\<close>\<close>

definition get_or_empty :: "'a list option \<Rightarrow> 'a list" where
  "get_or_empty v = (case v of None \<Rightarrow> [] | Some xs \<Rightarrow> xs)"

text \<open>
  \<open>acquire\<close>. An array that \<open>?? []\<close> made up because the key was missing is stored in
  its map, so the limiter can change on every branch after the configuration check. One
  clock value serves the pruning and the push of the same synchronous call.
\<close>

definition acquire :: "RateLimiter \<Rightarrow> int \<Rightarrow> string \<Rightarrow> promise \<times> RateLimiter" where
  "acquire rl now p =
     (case configs rl p of
        None \<Rightarrow> (PromiseResolved, rl)
      | Some config \<Rightarrow>
          (let rl1 = cleanWindow rl now p;
               timestamps = get_or_empty (requestTimestamps rl1 p);
               rl2 = (if requestTimestamps rl1 p = None
                      then rl1\<lparr> requestTimestamps := (requestTimestamps rl1)(p \<mapsto> timestamps) \<rparr>
                      else rl1);
               queue = get_or_empty (map_of (queues rl2) p);
               rl3 = (if map_of (queues rl2) p = None
                      then rl2\<lparr> queues := AList.update p queue (queues rl2) \<rparr>
                      else rl2)
           in if int (length timestamps) < requestsPerMinute config
              then (PromiseResolved,
                    rl3\<lparr> requestTimestamps := (requestTimestamps rl3)(p \<mapsto> timestamps @ [now]) \<rparr>)
              else if int (length queue) < maxQueueSize config
              then (PromisePending (promises rl3),
                    startTimer
                      (rl3\<lparr> queues :=
                              AList.update p
                                (queue @ [\<lparr> waiter = promises rl3, enqueuedAt = now \<rparr>])
                                (queues rl3),
                            promises := Suc (promises rl3) \<rparr>) p)
              else (PromiseRejected (''Rate limit exceeded: queue full for provider '' @ p),
                    rl3)))"

record RateLimitStatus =
  requestsInWindow :: int
  queueLength :: int
  nextAvailableSlot :: int

definition getStatus :: "RateLimiter \<Rightarrow> int \<Rightarrow> string \<Rightarrow> RateLimitStatus \<times> RateLimiter" where
  "getStatus rl now p =
     (case configs rl p of
        None \<Rightarrow> (\<lparr> requestsInWindow = 0, queueLength = 0, nextAvailableSlot = 0 \<rparr>, rl)
      | Some config \<Rightarrow>
          (let rl1 = cleanWindow rl now p;
               timestamps = get_or_empty (requestTimestamps rl1 p);
               queue = get_or_empty (map_of (queues rl1) p);
               nextAvailableSlot =
                 (if int (length timestamps) \<ge> requestsPerMinute config \<and> length timestamps > 0
                  then timestamps ! 0 + 60000 else 0)
           in (\<lparr> requestsInWindow = int (length timestamps),
                 queueLength = int (length queue),
                 nextAvailableSlot = nextAvailableSlot \<rparr>, rl1)))"

text \<open>
  The \<open>while\<close> loop of \<open>processQueue\<close>: the head of the queue is released while the
  window has room. It returns the queue, the window and the settlement log.
\<close>

fun release ::
  "int \<Rightarrow> int \<Rightarrow> QueuedRequest list \<Rightarrow> int list \<Rightarrow> (nat \<times> settlement) list
     \<Rightarrow> QueuedRequest list \<times> int list \<times> (nat \<times> settlement) list" where
  "release rpm now [] timestamps log = ([], timestamps, log)"
| "release rpm now (item # queue) timestamps log =
     (if int (length timestamps) < rpm
      then release rpm now queue (timestamps @ [now]) (log @ [(waiter item, Resolved)])
      else (item # queue, timestamps, log))"

text \<open>
  \<open>processQueue\<close>, the body of the interval timer. An array that \<open>?? []\<close> made up
  because the key was missing is not stored back.
\<close>

definition processQueue :: "RateLimiter \<Rightarrow> int \<Rightarrow> string \<Rightarrow> RateLimiter" where
  "processQueue rl now p =
     (let rl1 = cleanWindow rl now p
      in case configs rl1 p of
           None \<Rightarrow> rl1
         | Some config \<Rightarrow>
             (let (queue', timestamps', log') =
                    release (requestsPerMinute config) now
                      (get_or_empty (map_of (queues rl1) p))
                      (get_or_empty (requestTimestamps rl1 p)) (settled rl1);
                  rl2 = rl1\<lparr> requestTimestamps :=
                               (if requestTimestamps rl1 p = None then requestTimestamps rl1
                                else (requestTimestamps rl1)(p \<mapsto> timestamps')),
                             queues :=
                               (if map_of (queues rl1) p = None then queues rl1
                                else AList.update p queue' (queues rl1)),
                             settled := log' \<rparr>
              in if length queue' = 0 then stopTimer rl2 p else rl2))"

text \<open>One firing of the interval timer of a provider; nothing fires without a timer.\<close>

definition tick :: "RateLimiter \<Rightarrow> int \<Rightarrow> string \<Rightarrow> RateLimiter" where
  "tick rl now p = (if p \<in> set (timers rl) then processQueue rl now p else rl)"

definition rejectAll :: "string \<Rightarrow> QueuedRequest list \<Rightarrow> (nat \<times> settlement) list" where
  "rejectAll p queue =
     map (\<lambda>item. (waiter item, Rejected (''Rate limiter disposed for provider '' @ p))) queue"

text \<open>
  \<open>dispose\<close>: both loops enumerate a \<open>Map\<close> in insertion order; deleting the entry being
  visited does not disturb the enumeration.
\<close>

definition dispose :: "RateLimiter \<Rightarrow> RateLimiter" where
  "dispose rl =
     (let rl1 = foldl stopTimer rl (timers rl)
      in rl1\<lparr> settled := settled rl1 @ concat (map (\<lambda>(p, queue). rejectAll p queue) (queues rl1)),
              queues := map (\<lambda>(p, queue). (p, [])) (queues rl1) \<rparr>)"

text \<open>The timestamps of a provider's window once \<open>cleanWindow\<close> has pruned them.\<close>

definition window :: "RateLimiter \<Rightarrow> int \<Rightarrow> string \<Rightarrow> int list" where
  "window rl now p = get_or_empty (requestTimestamps (cleanWindow rl now p) p)"

text \<open>A run of \<open>acquire\<close> calls on one provider, one per clock value, with their promises.\<close>

fun acquire_all :: "RateLimiter \<Rightarrow> string \<Rightarrow> int list \<Rightarrow> promise list \<times> RateLimiter" where
  "acquire_all rl p [] = ([], rl)"
| "acquire_all rl p (t # ts) =
     (let (pr, rl1) = acquire rl t p;
          (prs, rl2) = acquire_all rl1 p ts
      in (pr # prs, rl2))"

section \<open>Provider errors (src/types/provider.ts, src/providers/base-provider.ts)\<close>

datatype error_type = auth | rate_limit | service_unavailable | invalid_request | unknown

record ProviderError =
  err_provider :: string
  statusCode :: "int option"
  message :: string
  err_type :: error_type
  retryable :: bool

text \<open>
  What \<open>normalizeError\<close> reads of the error axios raised: \<open>error.response.status\<close>,
  \<open>error.response.data.error.message\<close> and \<open>error.message\<close>, each possibly missing.
\<close>

record AxiosError =
  response_status :: "int option"
  response_error_message :: "string option"
  error_message :: "string option"

text \<open>\<open>a || b\<close> on optional strings: a missing or empty string is falsy.\<close>

definition or_else :: "string option \<Rightarrow> string option \<Rightarrow> string option" where
  "or_else a b = (case a of None \<Rightarrow> b | Some s \<Rightarrow> if s = [] then b else Some s)"

definition normalizeError :: "string \<Rightarrow> AxiosError \<Rightarrow> ProviderError" where
  "normalizeError providerName error =
     (let statusCode = response_status error;
          message =
            (case or_else (or_else (response_error_message error) (error_message error))
                    (Some ''Unknown error'') of
               None \<Rightarrow> [] | Some s \<Rightarrow> s);
          (type, retryable) =
            (if statusCode = Some 401 \<or> statusCode = Some 403 then (auth, False)
             else if statusCode = Some 429 then (rate_limit, True)
             else if statusCode = Some 500 \<or> statusCode = Some 502 \<or> statusCode = Some 503
               then (service_unavailable, True)
             else if statusCode = Some 400 then (invalid_request, False)
             else (unknown, False))
      in \<lparr> err_provider = providerName, statusCode = statusCode, message = message,
           err_type = type, retryable = retryable \<rparr>)"

section \<open>Request validation (RequestHandler.parseRequest)\<close>

text \<open>
  The request body as \<open>express.json\<close> decodes it. An object is the list of its own
  properties, with distinct keys. Of a number only its being zero matters here
  (truthiness), so numbers are integers.
\<close>

datatype json =
  JNull | JBool bool | JNum int | JStr string | JArr "json list" | JObj "(string \<times> json) list"

text \<open>JavaScript truthiness (\<open>!v\<close> is its negation).\<close>

fun truthy :: "json \<Rightarrow> bool" where
  "truthy JNull = False"
| "truthy (JBool b) = b"
| "truthy (JNum n) = (n \<noteq> 0)"
| "truthy (JStr s) = (s \<noteq> [])"
| "truthy (JArr xs) = True"
| "truthy (JObj kvs) = True"

text \<open>\<open>typeof v === 'object'\<close>: true of \<open>null\<close>, arrays and objects.\<close>

fun typeof_object :: "json \<Rightarrow> bool" where
  "typeof_object JNull = True"
| "typeof_object (JArr xs) = True"
| "typeof_object (JObj kvs) = True"
| "typeof_object v = False"

fun typeof_string :: "json \<Rightarrow> bool" where
  "typeof_string (JStr s) = True"
| "typeof_string v = False"

text \<open>
  \<open>v.k\<close> for the keys the handler reads (\<open>model\<close>, \<open>messages\<close>, \<open>role\<close>, \<open>content\<close>,
  \<open>tool_calls\<close>, \<open>function_call\<close>): \<open>None\<close> is \<open>undefined\<close>. An array has none of these
  properties; the other values are never asked.
\<close>

fun get_prop :: "json \<Rightarrow> string \<Rightarrow> json option" where
  "get_prop (JObj kvs) k = map_of kvs k"
| "get_prop v k = None"

text \<open>\<open>!v\<close> of a property that may be \<open>undefined\<close>.\<close>

definition falsy :: "json option \<Rightarrow> bool" where
  "falsy v = (case v of None \<Rightarrow> True | Some x \<Rightarrow> \<not> truthy x)"

text \<open>The loop over the messages: \<open>Some\<close> is the message of the error thrown.\<close>

fun check_messages :: "json list \<Rightarrow> string option" where
  "check_messages [] = None"
| "check_messages (msg # rest) =
     (if \<not> truthy msg \<or> \<not> typeof_object msg then Some ''Each message must be an object''
      else if falsy (get_prop msg ''role'')
                \<or> \<not> (case get_prop msg ''role'' of None \<Rightarrow> False | Some r \<Rightarrow> typeof_string r)
        then Some ''Each message must have a role''
      else if get_prop msg ''content'' = None \<and> falsy (get_prop msg ''tool_calls'')
                \<and> falsy (get_prop msg ''function_call'')
        then Some ''Each message must have content, tool_calls, or function_call''
      else check_messages rest)"

definition parseRequest :: "json \<Rightarrow> string + json" where
  "parseRequest body =
     (if \<not> truthy body \<or> \<not> typeof_object body then Inl ''Request body must be a JSON object''
      else if falsy (get_prop body ''model'')
                \<or> \<not> (case get_prop body ''model'' of None \<Rightarrow> False | Some m \<Rightarrow> typeof_string m)
        then Inl ''model is required and must be a string''
      else
        (case get_prop body ''messages'' of
           Some (JArr messages) \<Rightarrow>
             if length messages = 0
             then Inl ''messages is required and must be a non-empty array''
             else (case check_messages messages of
                     Some e \<Rightarrow> Inl e
                   | None \<Rightarrow> Inr body)
         | _ \<Rightarrow> Inl ''messages is required and must be a non-empty array''))"

text \<open>
  The condition the specification gives for a valid body, in its own words: the body is
  an object; \<open>model\<close> is a non-empty string; \<open>messages\<close> is a non-empty sequence; every
  message is an object with a string \<open>role\<close> and at least one of a non-null \<open>content\<close>,
  \<open>tool_calls\<close>, \<open>function_call\<close>.
\<close>

definition present_nonnull :: "json option \<Rightarrow> bool" where
  "present_nonnull v = (case v of None \<Rightarrow> False | Some JNull \<Rightarrow> False | Some x \<Rightarrow> True)"

fun is_JObj :: "json \<Rightarrow> bool" where
  "is_JObj (JObj kvs) = True"
| "is_JObj v = False"

definition spec_valid_message :: "json \<Rightarrow> bool" where
  "spec_valid_message m =
     (is_JObj m
      \<and> (case get_prop m ''role'' of Some (JStr r) \<Rightarrow> True | _ \<Rightarrow> False)
      \<and> (present_nonnull (get_prop m ''content'') \<or> present_nonnull (get_prop m ''tool_calls'')
           \<or> present_nonnull (get_prop m ''function_call'')))"

definition spec_valid_body :: "json \<Rightarrow> bool" where
  "spec_valid_body body =
     (is_JObj body
      \<and> (case get_prop body ''model'' of Some (JStr s) \<Rightarrow> s \<noteq> [] | _ \<Rightarrow> False)
      \<and> (case get_prop body ''messages'' of
            Some (JArr ms) \<Rightarrow> ms \<noteq> [] \<and> list_all spec_valid_message ms
          | _ \<Rightarrow> False))"

text \<open>The condition the code checks, stated without the loop.\<close>

definition accepted_message :: "json \<Rightarrow> bool" where
  "accepted_message m =
     (is_JObj m
      \<and> (case get_prop m ''role'' of Some (JStr r) \<Rightarrow> r \<noteq> [] | _ \<Rightarrow> False)
      \<and> (get_prop m ''content'' \<noteq> None \<or> \<not> falsy (get_prop m ''tool_calls'')
           \<or> \<not> falsy (get_prop m ''function_call'')))"

definition accepted_body :: "json \<Rightarrow> bool" where
  "accepted_body body =
     (is_JObj body
      \<and> (case get_prop body ''model'' of Some (JStr s) \<Rightarrow> s \<noteq> [] | _ \<Rightarrow> False)
      \<and> (case get_prop body ''messages'' of
            Some (JArr ms) \<Rightarrow> ms \<noteq> [] \<and> list_all accepted_message ms
          | _ \<Rightarrow> False))"

section \<open>ResponseTransformer (src/transformer/response-transformer.ts)\<close>

record FunctionCall =
  fn_name :: string
  fn_arguments :: string

record ToolCall =
  tool_id :: string
  tool_type :: string
  tool_function :: FunctionCall

record Usage =
  promptTokens :: int
  completionTokens :: int
  totalTokens :: int

record ProviderResponse =
  resp_content :: string
  resp_finishReason :: string
  resp_usage :: Usage
  toolCalls :: "ToolCall list option"
  functionCall :: "FunctionCall option"

record Message =
  role :: string
  msg_content :: string
  msg_tool_calls :: "ToolCall list option"
  msg_function_call :: "FunctionCall option"

record ChatCompletionChoice =
  choice_index :: int
  choice_message :: Message
  choice_finish_reason :: string

record ChatCompletionUsage =
  prompt_tokens :: int
  completion_tokens :: int
  total_tokens :: int

record ChatCompletionResponse =
  response_id :: string
  response_object :: string
  response_created :: int
  response_model :: string
  response_choices :: "ChatCompletionChoice list"
  response_usage :: ChatCompletionUsage

text \<open>\<open>generateCompletionId\<close>: the UUID is an input.\<close>

definition generateCompletionId :: "string \<Rightarrow> string" where
  "generateCompletionId uuid = ''chatcmpl-'' @ uuid"

definition toOpenAIResponse ::
  "ProviderResponse \<Rightarrow> string \<Rightarrow> string \<Rightarrow> int \<Rightarrow> ChatCompletionResponse" where
  "toOpenAIResponse providerResponse m uuid now =
     (let message =
            \<lparr> role = ''assistant'', msg_content = resp_content providerResponse,
              msg_tool_calls =
                (case toolCalls providerResponse of
                   None \<Rightarrow> None
                 | Some tcs \<Rightarrow>
                     Some (map (\<lambda>tc. \<lparr> tool_id = tool_id tc, tool_type = tool_type tc,
                                       tool_function = tool_function tc \<rparr>) tcs)),
              msg_function_call = functionCall providerResponse \<rparr>;
          finish_reason =
            (if resp_finishReason providerResponse = ''length'' then ''length''
             else if resp_finishReason providerResponse = ''tool_calls'' then ''tool_calls''
             else if resp_finishReason providerResponse = ''content_filter'' then ''content_filter''
             else if resp_finishReason providerResponse = ''function_call'' then ''function_call''
             else ''stop'')
      in \<lparr> response_id = generateCompletionId uuid,
           response_object = ''chat.completion'',
           response_created = now div 1000,
           response_model = m,
           response_choices =
             [\<lparr> choice_index = 0, choice_message = message, choice_finish_reason = finish_reason \<rparr>],
           response_usage =
             \<lparr> prompt_tokens = promptTokens (resp_usage providerResponse),
               completion_tokens = completionTokens (resp_usage providerResponse),
               total_tokens = totalTokens (resp_usage providerResponse) \<rparr> \<rparr>)"

record FunctionCallChunk =
  fc_name :: "string option"
  fc_arguments :: "string option"

text \<open>\<open>ProviderToolCallChunk\<close> and \<open>ToolCallChunk\<close> have the same four fields.\<close>

record ToolCallChunk =
  tc_index :: int
  tc_id :: "string option"
  tc_type :: "string option"
  tc_function :: "FunctionCallChunk option"

record ProviderStreamChunk =
  content :: "string option"
  finishReason :: "string option"
  toolCallChunk :: "ToolCallChunk option"
  functionCallChunk :: "FunctionCallChunk option"

record ChatCompletionChunkDelta =
  delta_content :: "string option"
  delta_tool_calls :: "ToolCallChunk list option"
  delta_function_call :: "FunctionCallChunk option"

record ChatCompletionChunkChoice =
  cc_index :: int
  delta :: ChatCompletionChunkDelta
  finish_reason :: "string option"

record ChatCompletionChunk =
  chunk_id :: string
  chunk_object :: string
  created :: int
  chunk_model :: string
  choices :: "ChatCompletionChunkChoice list"

definition toOpenAIChunk ::
  "ProviderStreamChunk \<Rightarrow> string \<Rightarrow> string \<Rightarrow> int \<Rightarrow> ChatCompletionChunk" where
  "toOpenAIChunk chunk m streamId now =
     (let d = \<lparr> delta_content = content chunk,
                 delta_tool_calls =
                   (case toolCallChunk chunk of
                      None \<Rightarrow> None
                    | Some t \<Rightarrow>
                        Some [\<lparr> tc_index = tc_index t, tc_id = tc_id t, tc_type = tc_type t,
                                 tc_function = tc_function t \<rparr>]),
                 delta_function_call = functionCallChunk chunk \<rparr>;
          fr = (case finishReason chunk of
                  None \<Rightarrow> None
                | Some f \<Rightarrow>
                    if f = ''stop'' then Some ''stop''
                    else if f = ''length'' then Some ''length''
                    else if f = ''tool_calls'' then Some ''tool_calls''
                    else if f = ''content_filter'' then Some ''content_filter''
                    else if f = ''function_call'' then Some ''function_call''
                    else None)
      in \<lparr> chunk_id = streamId,
           chunk_object = ''chat.completion.chunk'',
           created = now div 1000,
           chunk_model = m,
           choices = [\<lparr> cc_index = 0, delta = d, finish_reason = fr \<rparr>] \<rparr>)"

text \<open>
  \<open>formatSSE\<close> and \<open>formatSSEDone\<close>. \<open>JSON.stringify\<close> belongs to the language, not
  to the repository: it is the parameter \<open>stringify\<close>.
\<close>

definition formatSSE :: "(ChatCompletionChunk \<Rightarrow> string) \<Rightarrow> ChatCompletionChunk \<Rightarrow> string" where
  "formatSSE stringify chunk = ''data: '' @ stringify chunk @ [CHR 0x0A, CHR 0x0A]"

definition formatSSEDone :: string where
  "formatSSEDone = ''data: [DONE]'' @ [CHR 0x0A, CHR 0x0A]"

section \<open>RequestHandler: the dispatch loop\<close>

text \<open>
  What JavaScript code throws here is either an \<open>Error\<close> object with its message or a
  plain \<open>ProviderError\<close> object.
\<close>

datatype thrown = JsError string | ProviderErr ProviderError

record ChatCompletionRequest =
  req_model :: string
  req_messages :: "json list"
  req_stream :: bool
  req_temperature :: "json option"
  req_top_p :: "json option"
  req_max_tokens :: "json option"
  req_stop :: "json option"
  req_tools :: "json option"

record ProviderRequest =
  pr_model :: string
  pr_messages :: "json list"
  pr_stream :: bool
  pr_accessToken :: string
  pr_temperature :: "json option"
  pr_top_p :: "json option"
  pr_max_tokens :: "json option"
  pr_stop :: "json option"
  pr_tools :: "json option"

record TokenSet =
  ts_accessToken :: string
  ts_refreshToken :: "string option"
  ts_expiresAt :: int
  ts_provider :: string

text \<open>
  A provider adapter. What the upstream answers is an input: it may differ from one
  attempt to the next, so the attempt number is an argument. A stream is the chunks it
  yields, each with the clock value read when it is transformed, and the error it raises
  after them, if any.
\<close>

record Adapter =
  chatCompletion :: "nat \<Rightarrow> ProviderRequest \<Rightarrow> thrown + ProviderResponse"
  chatCompletionStream ::
    "nat \<Rightarrow> ProviderRequest \<Rightarrow> (ProviderStreamChunk \<times> int) list \<times> thrown option"

text \<open>
  What surrounds one request. The rate limiter is shared with the requests in flight, so
  the state each attempt finds is an input, and so is the way a pending \<open>acquire\<close>
  promise is settled later (by the timer or by \<open>dispose\<close>). \<open>clock_at env 0\<close> is the clock
  at the first selection, \<open>clock_at env n\<close> at the \<open>acquire\<close> of attempt \<open>n\<close>, \<open>failed_at env n\<close>
  when the failure of attempt \<open>n\<close> is handled. \<open>uuid_at env n\<close> is the UUID drawn in
  attempt \<open>n\<close>.
\<close>

record Env =
  limiter_at :: "nat \<Rightarrow> RateLimiter"
  clock_at :: "nat \<Rightarrow> int"
  failed_at :: "nat \<Rightarrow> int"
  wait_outcome :: "nat \<Rightarrow> settlement"
  getValidToken :: "nat \<Rightarrow> string \<Rightarrow> thrown + TokenSet"
  adapters :: "string \<rightharpoonup> Adapter"
  uuid_at :: "nat \<Rightarrow> string"

definition normalizeToProviderError :: "thrown \<Rightarrow> string \<Rightarrow> ProviderError" where
  "normalizeToProviderError error p =
     (case error of
        ProviderErr pe \<Rightarrow> pe
      | JsError msg \<Rightarrow>
          \<lparr> err_provider = p, statusCode = None, message = msg, err_type = unknown,
            retryable = False \<rparr>)"

definition createProviderError :: "string \<Rightarrow> string \<Rightarrow> ProviderError" where
  "createProviderError msg m =
     \<lparr> err_provider = m, statusCode = None, message = msg, err_type = service_unavailable,
       retryable = False \<rparr>"

text \<open>\<open>await this.rateLimiter.acquire(p)\<close>: \<open>Some\<close> is what the \<open>await\<close> throws.\<close>

definition await_acquire :: "Env \<Rightarrow> nat \<Rightarrow> string \<Rightarrow> thrown option" where
  "await_acquire env n p =
     (case fst (acquire (limiter_at env n) (clock_at env n) p) of
        PromiseResolved \<Rightarrow> None
      | PromiseRejected msg \<Rightarrow> Some (JsError msg)
      | PromisePending w \<Rightarrow>
          (case wait_outcome env n of
             Resolved \<Rightarrow> None
           | Rejected msg \<Rightarrow> Some (JsError msg)))"

definition buildProviderRequest ::
  "ProviderModel \<Rightarrow> ChatCompletionRequest \<Rightarrow> bool \<Rightarrow> TokenSet \<Rightarrow> ProviderRequest" where
  "buildProviderRequest selected request stream token =
     \<lparr> pr_model = model selected, pr_messages = req_messages request, pr_stream = stream,
       pr_accessToken = ts_accessToken token, pr_temperature = req_temperature request,
       pr_top_p = req_top_p request, pr_max_tokens = req_max_tokens request,
       pr_stop = req_stop request, pr_tools = req_tools request \<rparr>"

definition notInitialized :: "string \<Rightarrow> thrown" where
  "notInitialized p =
     ProviderErr \<lparr> err_provider = p, statusCode = None,
                   message = ''Provider '' @ p @ '' not initialized'',
                   err_type = service_unavailable, retryable = True \<rparr>"

text \<open>
  The \<open>try\<close> block of \<open>handleCompletion\<close> (the usage counters it feeds are left out).
\<close>

definition completion_attempt ::
  "Env \<Rightarrow> ChatCompletionRequest \<Rightarrow> nat \<Rightarrow> ProviderModel \<Rightarrow> thrown + ChatCompletionResponse" where
  "completion_attempt env request n selected =
     (case await_acquire env n (provider selected) of
        Some e \<Rightarrow> Inl e
      | None \<Rightarrow>
          (case getValidToken env n (provider selected) of
             Inl e \<Rightarrow> Inl e
           | Inr token \<Rightarrow>
               (case adapters env (provider selected) of
                  None \<Rightarrow> Inl (notInitialized (provider selected))
                | Some adapter \<Rightarrow>
                    (case chatCompletion adapter n (buildProviderRequest selected request False token) of
                       Inl e \<Rightarrow> Inl e
                     | Inr response \<Rightarrow>
                         Inr (toOpenAIResponse response (req_model request) (uuid_at env n)
                                (clock_at env n))))))"

text \<open>
  The \<open>while\<close> loop of \<open>handleCompletion\<close>. \<open>selected\<close> is never \<open>null\<close> at the loop test:
  the code leaves the loop as soon as \<open>getNextProvider\<close> returns \<open>null\<close>. The result is
  what is returned or thrown, the router, and the providers attempted, in order.
\<close>

function completion_loop ::
  "Env \<Rightarrow> ChatCompletionRequest \<Rightarrow> nat \<Rightarrow> nat \<Rightarrow> ProviderModel \<Rightarrow> ProviderError option
     \<Rightarrow> Router \<Rightarrow> string list \<Rightarrow> (thrown + ChatCompletionResponse) \<times> Router \<times> string list" where
  "completion_loop env request maxRetries attempts selected lastError router tried =
     (if attempts < maxRetries
      then
        (case completion_attempt env request (Suc attempts) selected of
           Inr response \<Rightarrow> (Inr response, router, tried @ [provider selected])
         | Inl error \<Rightarrow>
             (let providerError = normalizeToProviderError error (provider selected)
              in if retryable providerError \<and> Suc attempts < maxRetries
                 then
                   (case getNextProvider router (failed_at env (Suc attempts))
                           (failed_at env (Suc attempts)) (req_model request) (provider selected) of
                      (Inl e, router') \<Rightarrow> (Inl (JsError e), router', tried @ [provider selected])
                    | (Inr None, router') \<Rightarrow>
                        (Inl (ProviderErr providerError), router', tried @ [provider selected])
                    | (Inr (Some next), router') \<Rightarrow>
                        completion_loop env request maxRetries (Suc attempts) next
                          (Some providerError) router' (tried @ [provider selected]))
                 else (Inl (ProviderErr providerError), router, tried @ [provider selected])))
      else
        (Inl (ProviderErr
                (case lastError of
                   Some e \<Rightarrow> e
                 | None \<Rightarrow> createProviderError ''All providers failed'' (req_model request))),
         router, tried))"
  by pat_completeness auto
termination
  by (relation "measure (\<lambda>(env, request, maxRetries, attempts, rest). maxRetries - attempts)") auto

declare completion_loop.simps [simp del]

definition handleCompletion ::
  "Env \<Rightarrow> nat \<Rightarrow> Router \<Rightarrow> ChatCompletionRequest
     \<Rightarrow> (thrown + ChatCompletionResponse) \<times> Router \<times> string list" where
  "handleCompletion env maxRetries router request =
     (case resolveModelAlias router (req_model request) of
        Inl e \<Rightarrow> (Inl (JsError e), router, [])
      | Inr candidates \<Rightarrow>
          (case selectProvider router (clock_at env 0) candidates of
             (None, router1) \<Rightarrow>
               (Inl (ProviderErr (createProviderError ''No available provider'' (req_model request))),
                router1, [])
           | (Some selected, router1) \<Rightarrow>
               completion_loop env request maxRetries 0 selected None router1 []))"

text \<open>
  Streaming. The generator yields strings; a frame is what one \<open>yield\<close> formats: a chunk
  (\<open>formatSSE\<close>) or the end marker (\<open>formatSSEDone\<close>).
\<close>

datatype frame = ChunkFrame ChatCompletionChunk | DoneFrame

fun formatFrame :: "(ChatCompletionChunk \<Rightarrow> string) \<Rightarrow> frame \<Rightarrow> string" where
  "formatFrame stringify (ChunkFrame chunk) = formatSSE stringify chunk"
| "formatFrame stringify DoneFrame = formatSSEDone"

text \<open>
  The \<open>try\<close> block of \<open>handleCompletionStream\<close>: the frames it yields, and the error it
  throws (\<open>None\<close> when it reaches \<open>return\<close>).
\<close>

definition stream_attempt ::
  "Env \<Rightarrow> ChatCompletionRequest \<Rightarrow> nat \<Rightarrow> ProviderModel \<Rightarrow> frame list \<times> thrown option" where
  "stream_attempt env request n selected =
     (case await_acquire env n (provider selected) of
        Some e \<Rightarrow> ([], Some e)
      | None \<Rightarrow>
          (case getValidToken env n (provider selected) of
             Inl e \<Rightarrow> ([], Some e)
           | Inr token \<Rightarrow>
               (case adapters env (provider selected) of
                  None \<Rightarrow> ([], Some (notInitialized (provider selected)))
                | Some adapter \<Rightarrow>
                    (let streamId = generateCompletionId (uuid_at env n);
                         (chunks, raised) =
                           chatCompletionStream adapter n
                             (buildProviderRequest selected request True token);
                         yielded =
                           map (\<lambda>(chunk, now).
                                  ChunkFrame (toOpenAIChunk chunk (req_model request) streamId now))
                             chunks
                     in case raised of
                          None \<Rightarrow> (yielded @ [DoneFrame], None)
                        | Some e \<Rightarrow> (yielded, Some e)))))"

text \<open>
  The \<open>while\<close> loop of \<open>handleCompletionStream\<close>; \<open>out\<close> is what has been yielded so far.
  \<open>None\<close> in the result says that the generator returned.
\<close>

function stream_loop ::
  "Env \<Rightarrow> ChatCompletionRequest \<Rightarrow> nat \<Rightarrow> nat \<Rightarrow> ProviderModel \<Rightarrow> ProviderError option
     \<Rightarrow> Router \<Rightarrow> string list \<Rightarrow> frame list
     \<Rightarrow> frame list \<times> thrown option \<times> Router \<times> string list" where
  "stream_loop env request maxRetries attempts selected lastError router tried out =
     (if attempts < maxRetries
      then
        (case stream_attempt env request (Suc attempts) selected of
           (yielded, None) \<Rightarrow> (out @ yielded, None, router, tried @ [provider selected])
         | (yielded, Some error) \<Rightarrow>
             (let providerError = normalizeToProviderError error (provider selected)
              in if retryable providerError \<and> Suc attempts < maxRetries
                 then
                   (case getNextProvider router (failed_at env (Suc attempts))
                           (failed_at env (Suc attempts)) (req_model request) (provider selected) of
                      (Inl e, router') \<Rightarrow>
                        (out @ yielded, Some (JsError e), router', tried @ [provider selected])
                    | (Inr None, router') \<Rightarrow>
                        (out @ yielded, Some (ProviderErr providerError), router',
                         tried @ [provider selected])
                    | (Inr (Some next), router') \<Rightarrow>
                        stream_loop env request maxRetries (Suc attempts) next
                          (Some providerError) router' (tried @ [provider selected])
                          (out @ yielded))
                 else (out @ yielded, Some (ProviderErr providerError), router,
                       tried @ [provider selected])))
      else
        (out,
         Some (ProviderErr
                 (case lastError of
                    Some e \<Rightarrow> e
                  | None \<Rightarrow> createProviderError ''All providers failed'' (req_model request))),
         router, tried))"
  by pat_completeness auto
termination
  by (relation "measure (\<lambda>(env, request, maxRetries, attempts, rest). maxRetries - attempts)") auto

declare stream_loop.simps [simp del]

text \<open>The frames of a streaming completion, before they are formatted.\<close>

definition stream_frames ::
  "Env \<Rightarrow> nat \<Rightarrow> Router \<Rightarrow> ChatCompletionRequest
     \<Rightarrow> frame list \<times> thrown option \<times> Router \<times> string list" where
  "stream_frames env maxRetries router request =
     (case resolveModelAlias router (req_model request) of
        Inl e \<Rightarrow> ([], Some (JsError e), router, [])
      | Inr candidates \<Rightarrow>
          (case selectProvider router (clock_at env 0) candidates of
             (None, router1) \<Rightarrow>
               ([],
                Some (ProviderErr
                        (createProviderError ''No available provider'' (req_model request))),
                router1, [])
           | (Some selected, router1) \<Rightarrow>
               stream_loop env request maxRetries 0 selected None router1 [] []))"

text \<open>\<open>handleCompletionStream\<close>: the strings the generator yields, and how it ends.\<close>

definition handleCompletionStream ::
  "(ChatCompletionChunk \<Rightarrow> string) \<Rightarrow> Env \<Rightarrow> nat \<Rightarrow> Router \<Rightarrow> ChatCompletionRequest
     \<Rightarrow> string list \<times> thrown option" where
  "handleCompletionStream stringify env maxRetries router request =
     (case stream_frames env maxRetries router request of
        (frames, raised, router', tried) \<Rightarrow> (map (formatFrame stringify) frames, raised))"

section \<open>GatewayProxy: error formatting (src/server/gateway-proxy.ts)\<close>

record OpenAIError =
  oe_message :: string
  oe_type :: string
  oe_param :: "string option"
  oe_code :: "string option"

text \<open>\<open>String.prototype.includes\<close>\<close>

fun str_includes :: "string \<Rightarrow> string \<Rightarrow> bool" where
  "str_includes [] sub = (sub = [])"
| "str_includes (c # cs) sub = (take (length sub) (c # cs) = sub \<or> str_includes cs sub)"

text \<open>
  A thrown \<open>ProviderError\<close> object has the keys \<open>type\<close> and \<open>provider\<close>; an \<open>Error\<close>
  object has neither.
\<close>

definition formatError :: "thrown \<Rightarrow> OpenAIError" where
  "formatError error =
     (case error of
        ProviderErr pe \<Rightarrow>
          (let (type, code) =
                 (if err_type pe = auth then (''authentication_error'', Some ''invalid_api_key'')
                  else if err_type pe = rate_limit
                    then (''rate_limit_error'', Some ''rate_limit_exceeded'')
                  else if err_type pe = invalid_request then (''invalid_request_error'', None)
                  else if err_type pe = service_unavailable
                    then (''server_error'', Some ''service_unavailable'')
                  else (''server_error'', None))
           in \<lparr> oe_message = message pe, oe_type = type, oe_param = None, oe_code = code \<rparr>)
      | JsError msg \<Rightarrow>
          if str_includes msg ''required'' \<or> str_includes msg ''must be'' \<or> str_includes msg ''must have''
          then \<lparr> oe_message = msg, oe_type = ''invalid_request_error'', oe_param = None,
                 oe_code = None \<rparr>
          else \<lparr> oe_message = msg, oe_type = ''server_error'', oe_param = None,
                 oe_code = None \<rparr>)"

definition getHttpStatus :: "thrown \<Rightarrow> int" where
  "getHttpStatus error =
     (case error of
        ProviderErr pe \<Rightarrow>
          if err_type pe = auth then 401
          else if err_type pe = rate_limit then 429
          else if err_type pe = invalid_request then 400
          else if err_type pe = service_unavailable then 503
          else 500
      | JsError msg \<Rightarrow>
          if str_includes msg ''required'' \<or> str_includes msg ''must be'' \<or> str_includes msg ''must have''
               \<or> str_includes msg ''Unknown model''
          then 400 else 500)"

text \<open>The Express error handler: the status and the JSON body of the response.\<close>

definition errorHandler :: "thrown \<Rightarrow> int \<times> OpenAIError" where
  "errorHandler err = (getHttpStatus err, formatError err)"

section \<open>AuthManager.refreshToken (src/auth/auth-manager.ts, src/auth/token-store.ts)\<close>

record ProviderConfig =
  enabled :: bool
  clientId :: "string option"
  clientSecret :: "string option"
  authEndpoint :: "string option"
  tokenEndpoint :: "string option"
  apiEndpoint :: string

text \<open>
  The file token store once it is initialised: the map in memory and the snapshot last
  written to the file. Writing the file can fail; whether it does is an input of each
  operation (\<open>Some\<close> is the message of the file system's error).
\<close>

record FileTokenStore =
  tokens :: "string \<rightharpoonup> TokenSet"
  persisted :: "string \<rightharpoonup> TokenSet"

definition persist :: "FileTokenStore \<Rightarrow> string option \<Rightarrow> string option \<times> FileTokenStore" where
  "persist store write_error =
     (case write_error of
        None \<Rightarrow> (None, store\<lparr> persisted := tokens store \<rparr>)
      | Some e \<Rightarrow> (Some e, store))"

definition saveToken ::
  "FileTokenStore \<Rightarrow> string \<Rightarrow> TokenSet \<Rightarrow> string option \<Rightarrow> string option \<times> FileTokenStore" where
  "saveToken store p tokenSet write_error =
     persist (store\<lparr> tokens := (tokens store)(p \<mapsto> tokenSet) \<rparr>) write_error"

definition getToken :: "FileTokenStore \<Rightarrow> string \<Rightarrow> TokenSet option" where
  "getToken store p = tokens store p"

definition deleteToken ::
  "FileTokenStore \<Rightarrow> string \<Rightarrow> string option \<Rightarrow> string option \<times> FileTokenStore" where
  "deleteToken store p write_error =
     persist (store\<lparr> tokens := (tokens store)(p := None) \<rparr>) write_error"

definition getProviderConfig ::
  "(string \<rightharpoonup> ProviderConfig) \<Rightarrow> string \<Rightarrow> string + ProviderConfig" where
  "getProviderConfig providerConfigs p =
     (case providerConfigs p of
        None \<Rightarrow> Inl (''Provider '' @ p @ '' not configured'')
      | Some config \<Rightarrow>
          if \<not> enabled config then Inl (''Provider '' @ p @ '' is disabled'') else Inr config)"

text \<open>The body of the refresh request and the fields read of the token endpoint's answer.\<close>

record RefreshRequest =
  client_id :: string
  client_secret :: "string option"
  refresh_token :: string
  grant_type :: string

record TokenResponse =
  resp_access_token :: string
  resp_refresh_token :: "string option"
  resp_expires_in :: int

text \<open>\<open>!s\<close> of an optional string.\<close>

definition missing :: "string option \<Rightarrow> bool" where
  "missing s = (case s of None \<Rightarrow> True | Some x \<Rightarrow> x = [])"

text \<open>
  The \<open>catch\<close> block of \<open>refreshToken\<close>: the entry is deleted, then the error is thrown.
  When the deletion cannot write the file, its own error is thrown instead.
\<close>

definition refresh_failed ::
  "FileTokenStore \<Rightarrow> string \<Rightarrow> string \<Rightarrow> string option \<Rightarrow> (string + TokenSet) \<times> FileTokenStore" where
  "refresh_failed store p msg delete_error =
     (case deleteToken store p delete_error of
        (None, store') \<Rightarrow>
          (Inl (''Failed to refresh token for '' @ p @ '': '' @ msg @ ''. Please re-authenticate.''),
           store')
      | (Some e, store') \<Rightarrow> (Inl e, store'))"

text \<open>The body \<open>refreshToken\<close> posts to the token endpoint.\<close>

definition refreshRequest :: "ProviderConfig \<Rightarrow> TokenSet \<Rightarrow> RefreshRequest" where
  "refreshRequest config currentToken =
     \<lparr> client_id = get_or_empty (clientId config),
       client_secret = clientSecret config,
       refresh_token = get_or_empty (ts_refreshToken currentToken),
       grant_type = ''refresh_token'' \<rparr>"

text \<open>
  \<open>refreshToken\<close>. \<open>post\<close> is \<open>axios.post\<close> on the token endpoint: the answer's data, or the
  message of the error it raises. \<open>now\<close> is the clock read when the answer has arrived.
\<close>

definition refreshToken ::
  "(string \<rightharpoonup> ProviderConfig) \<Rightarrow> (string \<Rightarrow> RefreshRequest \<Rightarrow> string + TokenResponse) \<Rightarrow> int
     \<Rightarrow> string option \<Rightarrow> string option \<Rightarrow> FileTokenStore \<Rightarrow> string
     \<Rightarrow> (string + TokenSet) \<times> FileTokenStore" where
  "refreshToken providerConfigs post now save_error delete_error store p =
     (case getProviderConfig providerConfigs p of
        Inl e \<Rightarrow> (Inl e, store)
      | Inr config \<Rightarrow>
          (case getToken store p of
             None \<Rightarrow> (Inl (''No token found for provider '' @ p), store)
           | Some currentToken \<Rightarrow>
               if missing (ts_refreshToken currentToken)
               then (Inl (''No refresh token available for provider '' @ p), store)
               else if missing (tokenEndpoint config) \<or> missing (clientId config)
               then (Inl (''Provider '' @ p @ '' missing token endpoint or client ID''), store)
               else
                 (case post (get_or_empty (tokenEndpoint config))
                         (refreshRequest config currentToken) of
                    Inl msg \<Rightarrow> refresh_failed store p msg delete_error
                  | Inr response \<Rightarrow>
                      (let tokenSet =
                             \<lparr> ts_accessToken = resp_access_token response,
                               ts_refreshToken =
                                 or_else (resp_refresh_token response) (ts_refreshToken currentToken),
                               ts_expiresAt = now + resp_expires_in response * 1000,
                               ts_provider = p \<rparr>
                       in case saveToken store p tokenSet save_error of
                            (None, store1) \<Rightarrow> (Inr tokenSet, store1)
                          | (Some e, store1) \<Rightarrow> refresh_failed store1 p e delete_error))))"

section \<open>Provider adapters (src/providers/openai-provider.ts, gemini-provider.ts, src/index.ts)\<close>

text \<open>
  \<open>OpenAIProvider\<close> and \<open>GeminiProvider\<close> are the two classes that extend \<open>BaseProvider\<close>,
  and the only adapters \<open>startGateway\<close> registers. Their methods have one shape.
  \<open>chatCompletion\<close> awaits the POST and converts the answer inside one \<open>try\<close> block whose
  \<open>catch\<close> throws \<open>normalizeError(error)\<close>. The generator \<open>chatCompletionStream\<close>, again
  inside one \<open>try\<close> block, awaits the POST with \<open>responseType: 'stream'\<close>, then reads
  \<open>response.data\<close> piece by piece and yields one chunk for each \<open>data:\<close> line that parses
  (a line that does not parse is skipped inside a \<open>try\<close> of its own); its \<open>catch\<close> throws
  \<open>normalizeError(error)\<close> as well.

  What the upstream does is an input. Either the POST is rejected, with the error axios
  raises; or it resolves and the body yields its chunks and ends; or the reading of the
  body fails after some chunks. In the last case the error is raised by the response
  stream after the POST has resolved: it is not an HTTP error, it has no \<open>response\<close>
  property, and \<open>normalizeError\<close> reads no status from it, only its message if it has one.
\<close>

datatype upstream =
    PostRejected AxiosError
  | BodyEnded "(ProviderStreamChunk \<times> int) list"
  | BodyFailed "(ProviderStreamChunk \<times> int) list" "string option"

definition stream_error :: "string option \<Rightarrow> AxiosError" where
  "stream_error msg =
     \<lparr> response_status = None, response_error_message = None, error_message = msg \<rparr>"

record ProviderBackend =
  post_completion :: "nat \<Rightarrow> ProviderRequest \<Rightarrow> AxiosError + ProviderResponse"
  post_stream :: "nat \<Rightarrow> ProviderRequest \<Rightarrow> upstream"

definition provider_chatCompletion ::
  "string \<Rightarrow> (AxiosError + ProviderResponse) \<Rightarrow> thrown + ProviderResponse" where
  "provider_chatCompletion providerName answer =
     (case answer of
        Inl error \<Rightarrow> Inl (ProviderErr (normalizeError providerName error))
      | Inr response \<Rightarrow> Inr response)"

definition provider_chatCompletionStream ::
  "string \<Rightarrow> upstream \<Rightarrow> (ProviderStreamChunk \<times> int) list \<times> thrown option" where
  "provider_chatCompletionStream providerName up =
     (case up of
        PostRejected error \<Rightarrow> ([], Some (ProviderErr (normalizeError providerName error)))
      | BodyEnded chunks \<Rightarrow> (chunks, None)
      | BodyFailed chunks msg \<Rightarrow>
          (chunks, Some (ProviderErr (normalizeError providerName (stream_error msg)))))"

definition BaseProvider :: "string \<Rightarrow> ProviderBackend \<Rightarrow> Adapter" where
  "BaseProvider providerName backend =
     \<lparr> chatCompletion =
         (\<lambda>n request. provider_chatCompletion providerName (post_completion backend n request)),
       chatCompletionStream =
         (\<lambda>n request. provider_chatCompletionStream providerName (post_stream backend n request)) \<rparr>"

definition OpenAIProvider :: "ProviderBackend \<Rightarrow> Adapter" where
  "OpenAIProvider = BaseProvider ''openai''"

definition GeminiProvider :: "ProviderBackend \<Rightarrow> Adapter" where
  "GeminiProvider = BaseProvider ''gemini''"

text \<open>
  The provider map \<open>startGateway\<close> builds from \<open>config.providers\<close>: an adapter for each
  enabled entry named \<open>openai\<close> or \<open>gemini\<close>; any other name is skipped with a warning.
\<close>

definition startGateway_providers ::
  "(string \<rightharpoonup> ProviderConfig) \<Rightarrow> (string \<Rightarrow> ProviderBackend) \<Rightarrow> (string \<rightharpoonup> Adapter)" where
  "startGateway_providers config_providers backend name =
     (case config_providers name of
        None \<Rightarrow> None
      | Some providerConfig \<Rightarrow>
          if \<not> enabled providerConfig then None
          else if name = ''openai'' then Some (OpenAIProvider (backend name))
          else if name = ''gemini'' then Some (GeminiProvider (backend name))
          else None)"

text \<open>
  An environment in which no adapter raises, after it has yielded a chunk, an error that
  the dispatch loop takes for retryable.
\<close>

definition no_retry_after_chunk :: "Env \<Rightarrow> bool" where
  "no_retry_after_chunk env =
     (\<forall>p adapter n request chunks e.
        adapters env p = Some adapter
          \<and> chatCompletionStream adapter n request = (chunks, Some e) \<and> chunks \<noteq> []
          \<longrightarrow> \<not> retryable (normalizeToProviderError e p))"

section \<open>Example configurations\<close>

text \<open>The configuration of the repository's router tests.\<close>

definition ex_openai :: ProviderModel where
  "ex_openai = \<lparr> provider = ''openai'', model = ''gpt-4'', priority = 1 \<rparr>"

definition ex_gemini :: ProviderModel where
  "ex_gemini = \<lparr> provider = ''gemini'', model = ''gemini-pro'', priority = 2 \<rparr>"

definition ex_fast :: ProviderModel where
  "ex_fast = \<lparr> provider = ''openai'', model = ''gpt-3.5-turbo'', priority = 1 \<rparr>"

definition ex_aliases :: "ModelAlias list" where
  "ex_aliases =
     [\<lparr> alias_name = ''best-model'', providers = [ex_openai, ex_gemini] \<rparr>,
      \<lparr> alias_name = ''fast-model'', providers = [ex_fast] \<rparr>]"

definition ex_router :: Router where
  "ex_router = Router_new ex_aliases 60000"

text \<open>An upstream error with the given HTTP status.\<close>

definition ex_axios :: "int \<Rightarrow> AxiosError" where
  "ex_axios status =
     \<lparr> response_status = Some status, response_error_message = Some ''error'',
       error_message = Some ''error'' \<rparr>"

text \<open>The messages of the errors \<open>parseRequest\<close> throws.\<close>

definition validation_messages :: "string list" where
  "validation_messages =
     [''Request body must be a JSON object'',
      ''model is required and must be a string'',
      ''messages is required and must be a non-empty array'',
      ''Each message must be an object'',
      ''Each message must have a role'',
      ''Each message must have content, tool_calls, or function_call'']"

text \<open>
  Request bodies: a valid one; one without \<open>model\<close>; one whose only message has a
  \<open>null\<close> content and no tool or function call; one whose message has an empty role.
\<close>

definition ex_body_valid :: json where
  "ex_body_valid =
     JObj [(''model'', JStr ''gpt-4''),
           (''messages'', JArr [JObj [(''role'', JStr ''user''), (''content'', JStr ''Hello'')]])]"

definition ex_body_no_model :: json where
  "ex_body_no_model =
     JObj [(''messages'', JArr [JObj [(''role'', JStr ''user''), (''content'', JStr ''x'')]])]"

definition ex_body_null_content :: json where
  "ex_body_null_content =
     JObj [(''model'', JStr ''gpt-4''),
           (''messages'', JArr [JObj [(''role'', JStr ''user''), (''content'', JNull)]])]"

definition ex_body_empty_role :: json where
  "ex_body_empty_role =
     JObj [(''model'', JStr ''gpt-4''),
           (''messages'', JArr [JObj [(''role'', JStr ''''), (''content'', JStr ''Hello'')]])]"

text \<open>
  Rate limiters: three requests per minute and a queue of five for \<open>openai\<close> (the
  configuration of the repository's limiter tests), the same limiter after four calls
  within three milliseconds, and a limiter whose configuration allows no request.
\<close>

definition ex_limiter :: RateLimiter where
  "ex_limiter = RateLimiter_new [\<lparr> cfg_provider = ''openai'', requestsPerMinute = 3, maxQueueSize = 5 \<rparr>]"

definition ex_limiter_zero :: RateLimiter where
  "ex_limiter_zero =
     RateLimiter_new [\<lparr> cfg_provider = ''openai'', requestsPerMinute = 0, maxQueueSize = 5 \<rparr>]"

definition ex_limiter_queued :: RateLimiter where
  "ex_limiter_queued = snd (acquire_all ex_limiter ''openai'' [0, 1, 2, 3])"

text \<open>
  A stored token with a refresh token; a provider configured for OAuth and one with an
  API endpoint only (as in the router tests); a token endpoint that answers, and one
  that refuses.
\<close>

definition ex_token :: TokenSet where
  "ex_token = \<lparr> ts_accessToken = ''old-access'', ts_refreshToken = Some ''old-refresh'',
                ts_expiresAt = 1000, ts_provider = ''openai'' \<rparr>"

definition ex_store :: FileTokenStore where
  "ex_store = \<lparr> tokens = [''openai'' \<mapsto> ex_token], persisted = [''openai'' \<mapsto> ex_token] \<rparr>"

definition ex_oauth_config :: ProviderConfig where
  "ex_oauth_config =
     \<lparr> enabled = True, clientId = Some ''client'', clientSecret = None,
       authEndpoint = Some ''https://auth.example/device'',
       tokenEndpoint = Some ''https://auth.example/token'',
       apiEndpoint = ''https://api.openai.com'' \<rparr>"

definition ex_plain_config :: ProviderConfig where
  "ex_plain_config =
     \<lparr> enabled = True, clientId = None, clientSecret = None, authEndpoint = None,
       tokenEndpoint = None, apiEndpoint = ''https://api.openai.com'' \<rparr>"

definition ex_post_ok :: "string \<Rightarrow> RefreshRequest \<Rightarrow> string + TokenResponse" where
  "ex_post_ok url body =
     Inr \<lparr> resp_access_token = ''new-access'', resp_refresh_token = None,
           resp_expires_in = 3600 \<rparr>"

definition ex_post_fail :: "string \<Rightarrow> RefreshRequest \<Rightarrow> string + TokenResponse" where
  "ex_post_fail url body = Inl ''Request failed with status code 400''"

text \<open>
  A streaming request for \<open>best-model\<close>; an adapter that answers; an
  environment with one shared limiter state, a token for every provider and the UUIDs
  \<open>a\<close> (first attempt) and \<open>b\<close> (later attempts); a stand-in for \<open>JSON.stringify\<close> that
  prints the \<open>id\<close> only; and a limiter (one request per minute, a queue of one) whose
  window and queue are full.
\<close>

definition ex_request :: ChatCompletionRequest where
  "ex_request =
     \<lparr> req_model = ''best-model'',
       req_messages = [JObj [(''role'', JStr ''user''), (''content'', JStr ''Hi'')]],
       req_stream = True, req_temperature = None, req_top_p = None, req_max_tokens = None,
       req_stop = None, req_tools = None \<rparr>"

definition ex_chunk :: "string \<Rightarrow> ProviderStreamChunk" where
  "ex_chunk text =
     \<lparr> content = Some text, finishReason = None, toolCallChunk = None,
       functionCallChunk = None \<rparr>"

definition ex_response :: ProviderResponse where
  "ex_response =
     \<lparr> resp_content = ''Hello'', resp_finishReason = ''stop'',
       resp_usage = \<lparr> promptTokens = 10, completionTokens = 5, totalTokens = 15 \<rparr>,
       toolCalls = None, functionCall = None \<rparr>"

definition ex_adapter_ok :: Adapter where
  "ex_adapter_ok =
     \<lparr> chatCompletion = (\<lambda>n r. Inr ex_response),
       chatCompletionStream = (\<lambda>n r. ([(ex_chunk ''Hello'', 2000), (ex_chunk '' world'', 2500)], None)) \<rparr>"

definition ex_env :: "RateLimiter \<Rightarrow> (string \<rightharpoonup> Adapter) \<Rightarrow> Env" where
  "ex_env limiter as =
     \<lparr> limiter_at = (\<lambda>n. limiter), clock_at = (\<lambda>n. 5), failed_at = (\<lambda>n. 6),
       wait_outcome = (\<lambda>n. Resolved), getValidToken = (\<lambda>n p. Inr ex_token),
       adapters = as, uuid_at = (\<lambda>n. if n = 1 then ''a'' else ''b'') \<rparr>"

definition ex_stringify :: "ChatCompletionChunk \<Rightarrow> string" where
  "ex_stringify chunk = ''{id:'' @ chunk_id chunk @ ''}''"

definition ex_limiter_full :: RateLimiter where
  "ex_limiter_full =
     snd (acquire_all
            (RateLimiter_new [\<lparr> cfg_provider = ''openai'', requestsPerMinute = 1, maxQueueSize = 1 \<rparr>])
            ''openai'' [0, 1])"

text \<open>
  The gateway with both providers enabled, where the upstream of \<open>openai\<close> rejects every
  POST with status 503 and the upstream of \<open>gemini\<close> streams two chunks.
\<close>

definition ex_providers_config :: "string \<rightharpoonup> ProviderConfig" where
  "ex_providers_config = [''openai'' \<mapsto> ex_plain_config, ''gemini'' \<mapsto> ex_plain_config]"

definition ex_backend :: "string \<Rightarrow> ProviderBackend" where
  "ex_backend name =
     (if name = ''openai''
      then \<lparr> post_completion = (\<lambda>n r. Inl (ex_axios 503)),
             post_stream = (\<lambda>n r. PostRejected (ex_axios 503)) \<rparr>
      else \<lparr> post_completion = (\<lambda>n r. Inr ex_response),
             post_stream =
               (\<lambda>n r. BodyEnded [(ex_chunk ''Hello'', 2000), (ex_chunk '' world'', 2500)]) \<rparr>)"

definition ex_gateway_env :: Env where
  "ex_gateway_env =
     ex_env (RateLimiter_new []) (startGateway_providers ex_providers_config ex_backend)"

section \<open>Properties of the router\<close>

lemma classify_filter:
  "classify r now cs av fl =
     (av @ filter (\<lambda>c. \<not> isProviderFailed r now (provider c)) cs,
      fl @ filter (\<lambda>c. isProviderFailed r now (provider c)) cs)"
  by (induction cs arbitrary: av fl) simp_all

lemma isProviderFailed_clear [simp]:
  "isProviderFailed (clearExpiredFailures r now) now p = isProviderFailed r now p"
  by (simp add: isProviderFailed_def clearExpiredFailures_def split: option.splits)

lemma first_sort_key_in:
  assumes "xs \<noteq> []"
  shows "\<exists>x. first_or_null (sort_key f xs) = Some x \<and> x \<in> set xs \<and> (\<forall>y\<in>set xs. f x \<le> f y)"
proof -
  let ?s = "sort_key f xs"
  from assms have ne: "?s \<noteq> []" by (metis length_0_conv length_sort)
  then obtain x rest where s: "?s = x # rest" by (cases ?s) auto
  have srt: "sorted (map f ?s)" by (rule sorted_sort_key)
  have "\<forall>y\<in>set ?s. f x \<le> f y"
    using srt unfolding s by auto
  moreover have "set ?s = set xs" by simp
  moreover have "x \<in> set ?s" unfolding s by simp
  ultimately show ?thesis
    unfolding first_or_null_def s by auto
qed

text \<open>What \<open>selectProvider\<close> returns, in terms of the two filtered lists.\<close>

lemma selectProvider_result:
  "fst (selectProvider r now cs) =
     (let av = filter (\<lambda>c. \<not> isProviderFailed r now (provider c)) cs;
          fl = filter (\<lambda>c. isProviderFailed r now (provider c)) cs
      in if av \<noteq> [] then first_or_null (sort_key priority av)
         else if fl \<noteq> [] then first_or_null (sort_key priority fl)
         else None)"
proof (cases "cs = []")
  case True
  then show ?thesis by (simp add: selectProvider_def)
next
  case False
  have len: "\<And>zs::ProviderModel list. (0 < length (sort_key priority zs)) = (zs \<noteq> [])"
    by simp
  show ?thesis
    using False
    by (simp add: selectProvider_def classify_filter Let_def len del: length_sort length_greater_0_conv)
qed


text \<open>
  The test of \<open>isProviderFailed\<close>, written out on the failure map: the provider has an
  entry, and the entry is at most \<open>failureTTL\<close> old.
\<close>

lemma isProviderFailed_iff_ttl:
  "isProviderFailed r now p \<longleftrightarrow>
     (\<exists>ts. failedProviders r p = Some ts \<and> now - ts \<le> failureTTL r)"
  by (simp add: isProviderFailed_def split: option.splits)

lemma selectProvider_available:
  assumes "\<exists>c\<in>set cs. \<not> isProviderFailed r now (provider c)"
  shows "\<exists>s. fst (selectProvider r now cs) = Some s \<and> s \<in> set cs
            \<and> \<not> isProviderFailed r now (provider s)
            \<and> (\<forall>c\<in>set cs. \<not> isProviderFailed r now (provider c) \<longrightarrow> priority s \<le> priority c)"
proof -
  let ?av = "filter (\<lambda>c. \<not> isProviderFailed r now (provider c)) cs"
  from assms have ne: "?av \<noteq> []" by (auto simp: filter_empty_conv)
  from first_sort_key_in[OF ne, of priority]
  obtain s where s: "first_or_null (sort_key priority ?av) = Some s" "s \<in> set ?av"
    "\<forall>y\<in>set ?av. priority s \<le> priority y" by blast
  have "fst (selectProvider r now cs) = Some s"
    using ne s(1) by (simp add: selectProvider_result Let_def)
  with s show ?thesis by auto
qed

lemma selectProvider_all_failed:
  assumes "cs \<noteq> []" and "\<forall>c\<in>set cs. isProviderFailed r now (provider c)"
  shows "\<exists>s. fst (selectProvider r now cs) = Some s \<and> s \<in> set cs
            \<and> (\<forall>c\<in>set cs. priority s \<le> priority c)"
proof -
  let ?av = "filter (\<lambda>c. \<not> isProviderFailed r now (provider c)) cs"
  let ?fl = "filter (\<lambda>c. isProviderFailed r now (provider c)) cs"
  from assms have av: "?av = []" by (auto simp: filter_empty_conv)
  from assms have fl: "?fl = cs" by (auto simp: filter_id_conv)
  from first_sort_key_in[OF assms(1), of priority]
  obtain s where s: "first_or_null (sort_key priority cs) = Some s" "s \<in> set cs"
    "\<forall>y\<in>set cs. priority s \<le> priority y" by blast
  have "fst (selectProvider r now cs) = Some s"
    using av fl s(1) assms(1) by (simp add: selectProvider_result Let_def)
  with s show ?thesis by auto
qed

lemma selectProvider_empty: "fst (selectProvider r now []) = None"
  by (simp add: selectProvider_def)

lemmas router_eval =
  ex_router_def ex_aliases_def ex_openai_def ex_gemini_def ex_fast_def Router_new_def markFailed_def
  resolveModelAlias_def getNextProvider_def selectProvider_def clearExpiredFailures_def
  isProviderFailed_def first_or_null_def Let_def

text \<open>
  Claim C4. A provider is failed at time \<open>now\<close> when the failure map of the router, as
  it is when \<open>selectProvider\<close> is called, has an entry for it that is at most
  \<open>failureTTL\<close> old; those are the entries that pruning keeps. For every candidate list
  and every state of the failure map: an empty list gives \<open>null\<close>; if some candidate's
  provider is not failed, \<open>selectProvider\<close> returns such a candidate, of the least
  priority value among them; if every candidate is failed and the list is not empty, it
  returns a candidate of the least priority value of all. So a failed candidate is never
  returned while one that is not failed exists.
\<close>

theorem selectProvider_availability_preference:
  "(cs = [] \<longrightarrow> fst (selectProvider r now cs) = None) \<and>
   ((\<exists>c\<in>set cs. \<not> (\<exists>ts. failedProviders r (provider c) = Some ts \<and> now - ts \<le> failureTTL r)) \<longrightarrow>
      (\<exists>s. fst (selectProvider r now cs) = Some s \<and> s \<in> set cs
         \<and> \<not> (\<exists>ts. failedProviders r (provider s) = Some ts \<and> now - ts \<le> failureTTL r)
         \<and> (\<forall>c\<in>set cs. \<not> (\<exists>ts. failedProviders r (provider c) = Some ts
                                  \<and> now - ts \<le> failureTTL r)
                \<longrightarrow> priority s \<le> priority c))) \<and>
   (cs \<noteq> [] \<and> (\<forall>c\<in>set cs. \<exists>ts. failedProviders r (provider c) = Some ts
                                \<and> now - ts \<le> failureTTL r) \<longrightarrow>
      (\<exists>s. fst (selectProvider r now cs) = Some s \<and> s \<in> set cs
         \<and> (\<forall>c\<in>set cs. priority s \<le> priority c)))"
  unfolding isProviderFailed_iff_ttl[symmetric]
  using selectProvider_available[of cs r now] selectProvider_all_failed[of cs r now]
  by (simp add: selectProvider_empty)

text \<open>
  The theorem at the test configuration. Ten milliseconds after \<open>openai\<close> failed,
  \<open>gemini\<close> is returned; 60001 ms after, the entry of \<open>openai\<close> is past the TTL of 60000
  and \<open>openai\<close>, of the lower priority value, is returned again; with both providers
  failed \<open>openai\<close> is returned.
\<close>

theorem selectProvider_availability_preference_witness:
  "fst (selectProvider ex_router 10 []) = None
   \<and> fst (selectProvider (markFailed ex_router 0 ''openai'') 10 [ex_openai, ex_gemini])
       = Some ex_gemini
   \<and> fst (selectProvider (markFailed ex_router 0 ''openai'') 60001 [ex_openai, ex_gemini])
       = Some ex_openai
   \<and> fst (selectProvider (markFailed (markFailed ex_router 0 ''openai'') 0 ''gemini'') 10
            [ex_openai, ex_gemini]) = Some ex_openai"
proof -
  let ?r1 = "markFailed ex_router 0 ''openai''"
  let ?r2 = "markFailed (markFailed ex_router 0 ''openai'') 0 ''gemini''"
  let ?cs = "[ex_openai, ex_gemini]"
  have ne: "ex_gemini \<noteq> ex_openai" "priority ex_openai = 1" "priority ex_gemini = 2"
    by (simp_all add: ex_openai_def ex_gemini_def)
  have o1: "\<exists>ts. failedProviders ?r1 (provider ex_openai) = Some ts \<and> 10 - ts \<le> failureTTL ?r1"
    by (simp add: router_eval)
  have g1: "\<not> (\<exists>ts. failedProviders ?r1 (provider ex_gemini) = Some ts \<and> 10 - ts \<le> failureTTL ?r1)"
    by (simp add: router_eval)
  have o1': "\<not> (\<exists>ts. failedProviders ?r1 (provider ex_openai) = Some ts
                      \<and> 60001 - ts \<le> failureTTL ?r1)"
    by (simp add: router_eval)
  have g1': "\<not> (\<exists>ts. failedProviders ?r1 (provider ex_gemini) = Some ts
                      \<and> 60001 - ts \<le> failureTTL ?r1)"
    by (simp add: router_eval)
  have o2: "\<exists>ts. failedProviders ?r2 (provider ex_openai) = Some ts \<and> 10 - ts \<le> failureTTL ?r2"
    by (simp add: router_eval)
  have g2: "\<exists>ts. failedProviders ?r2 (provider ex_gemini) = Some ts \<and> 10 - ts \<le> failureTTL ?r2"
    by (simp add: router_eval)
  from selectProvider_availability_preference[of "[]" ex_router 10]
  have a: "fst (selectProvider ex_router 10 []) = None" by simp
  have "\<exists>c\<in>set ?cs. \<not> (\<exists>ts. failedProviders ?r1 (provider c) = Some ts \<and> 10 - ts \<le> failureTTL ?r1)"
    using g1 by (intro bexI[where x = ex_gemini]) simp_all
  with selectProvider_availability_preference[of ?cs ?r1 10]
  obtain s where s: "fst (selectProvider ?r1 10 ?cs) = Some s" "s \<in> set ?cs"
      "\<not> (\<exists>ts. failedProviders ?r1 (provider s) = Some ts \<and> 10 - ts \<le> failureTTL ?r1)"
    by blast
  from s(2,3) o1 have "s = ex_gemini" by auto
  with s(1) have b: "fst (selectProvider ?r1 10 ?cs) = Some ex_gemini" by simp
  have "\<exists>c\<in>set ?cs. \<not> (\<exists>ts. failedProviders ?r1 (provider c) = Some ts
                              \<and> 60001 - ts \<le> failureTTL ?r1)"
    using g1' by (intro bexI[where x = ex_gemini]) simp_all
  with selectProvider_availability_preference[of ?cs ?r1 60001]
  obtain s' where s': "fst (selectProvider ?r1 60001 ?cs) = Some s'" "s' \<in> set ?cs"
      "\<forall>c\<in>set ?cs. \<not> (\<exists>ts. failedProviders ?r1 (provider c) = Some ts
                              \<and> 60001 - ts \<le> failureTTL ?r1)
                \<longrightarrow> priority s' \<le> priority c"
    by blast
  from s'(3) o1' have "priority s' \<le> priority ex_openai" by simp
  with s'(2) ne have "s' = ex_openai" by auto
  with s'(1) have c: "fst (selectProvider ?r1 60001 ?cs) = Some ex_openai" by simp
  have "?cs \<noteq> [] \<and> (\<forall>c\<in>set ?cs. \<exists>ts. failedProviders ?r2 (provider c) = Some ts
                                \<and> 10 - ts \<le> failureTTL ?r2)"
    using o2 g2 by simp
  with selectProvider_availability_preference[of ?cs ?r2 10]
  obtain s'' where s'': "fst (selectProvider ?r2 10 ?cs) = Some s''" "s'' \<in> set ?cs"
      "\<forall>c\<in>set ?cs. priority s'' \<le> priority c"
    by blast
  from s''(3) have "priority s'' \<le> priority ex_openai" by simp
  with s''(2) ne have "s'' = ex_openai" by auto
  with s''(1) have d: "fst (selectProvider ?r2 10 ?cs) = Some ex_openai" by simp
  from a b c d show ?thesis by simp
qed

lemma resolve_markFailed [simp]:
  "resolveModelAlias (markFailed r t p) m = resolveModelAlias r m"
  by (simp add: resolveModelAlias_def markFailed_def)

lemma isProviderFailed_markFailed:
  "isProviderFailed (markFailed r t_mark p) t q =
     (if q = p then t - t_mark \<le> failureTTL r else isProviderFailed r t q)"
  by (simp add: isProviderFailed_def markFailed_def split: option.splits)

lemma getNextProvider_fst:
  "fst (getNextProvider r t_mark t_select m p) =
     (case resolveModelAlias r m of
        Inl e \<Rightarrow> Inl e
      | Inr cs \<Rightarrow> Inr (fst (selectProvider (markFailed r t_mark p) t_select cs)))"
  by (simp add: getNextProvider_def Let_def split: sum.splits prod.splits)

lemma selectProvider_snd:
  "snd (selectProvider r now cs) = (if cs = [] then r else clearExpiredFailures r now)"
  by (simp add: selectProvider_def Let_def split: prod.splits)

lemma getNextProvider_snd:
  "snd (getNextProvider r t_mark t_select m p) =
     (case resolveModelAlias r m of
        Inl e \<Rightarrow> markFailed r t_mark p
      | Inr cs \<Rightarrow> snd (selectProvider (markFailed r t_mark p) t_select cs))"
  by (simp add: getNextProvider_def Let_def split: sum.splits prod.splits)

text \<open>
  Claim C3, as amended. When the alias resolves to a candidate list that holds a candidate
  of a provider other than \<open>p\<close> which is not failed at the time of the selection, then
  \<open>getNextProvider(alias, p)\<close>, selecting within the failure TTL of the mark, returns a
  candidate of that list whose provider differs from \<open>p\<close>.
\<close>

theorem getNextProvider_no_repeat:
  assumes "resolveModelAlias r m = Inr cs"
      and "\<exists>c\<in>set cs. provider c \<noteq> p \<and> \<not> isProviderFailed r t_select (provider c)"
      and "t_select - t_mark \<le> failureTTL r"
  shows "\<exists>s. fst (getNextProvider r t_mark t_select m p) = Inr (Some s) \<and> s \<in> set cs
            \<and> provider s \<noteq> p"
proof -
  let ?r1 = "markFailed r t_mark p"
  from assms(2) have "\<exists>c\<in>set cs. \<not> isProviderFailed ?r1 t_select (provider c)"
    by (auto simp: isProviderFailed_markFailed)
  from selectProvider_available[OF this]
  obtain s where s: "fst (selectProvider ?r1 t_select cs) = Some s" "s \<in> set cs"
    "\<not> isProviderFailed ?r1 t_select (provider s)" by blast
  from s(3) assms(3) have "provider s \<noteq> p"
    by (auto simp: isProviderFailed_markFailed)
  with s assms(1) show ?thesis by (simp add: getNextProvider_fst)
qed

theorem getNextProvider_no_repeat_witness:
  "\<exists>s. fst (getNextProvider ex_router 0 5 ''best-model'' ''openai'') = Inr (Some s)
      \<and> s \<in> set [ex_openai, ex_gemini] \<and> provider s \<noteq> ''openai''"
proof -
  have a: "resolveModelAlias ex_router ''best-model'' = Inr [ex_openai, ex_gemini]"
    by (simp add: router_eval)
  have b: "\<exists>c\<in>set [ex_openai, ex_gemini].
             provider c \<noteq> ''openai'' \<and> \<not> isProviderFailed ex_router 5 (provider c)"
    by (simp add: router_eval)
  have c: "(5::int) - 0 \<le> failureTTL ex_router" by (simp add: router_eval)
  from getNextProvider_no_repeat[OF a b c] show ?thesis .
qed

text \<open>
  The claim as it was stated fails when every other candidate is failed too: the alias
  \<open>best-model\<close> has two candidates, \<open>gemini\<close> failed ten milliseconds ago, and
  \<open>getNextProvider(best-model, openai)\<close> returns the \<open>openai\<close> candidate again.
\<close>

theorem getNextProvider_repeat_counterexample:
  "resolveModelAlias (markFailed ex_router 0 ''gemini'') ''best-model'' = Inr [ex_openai, ex_gemini]
   \<and> 10 - 10 \<le> failureTTL (markFailed ex_router 0 ''gemini'')
   \<and> fst (getNextProvider (markFailed ex_router 0 ''gemini'') 10 10 ''best-model'' ''openai'')
       = Inr (Some ex_openai)
   \<and> provider ex_openai = ''openai''"
  by (simp add: router_eval)

text \<open>
  Claim C10. The failure memory is keyed by the provider name alone. After
  \<open>getNextProvider(m, p)\<close>, whatever the model \<open>m\<close> was, at any later time \<open>t\<close> within the
  failure TTL of the mark the provider \<open>p\<close> is failed; in \<open>selectProvider\<close> on any
  candidate list \<open>cs\<close> (of any alias) every candidate of \<open>p\<close> is put on the failed array
  and not on the available one; and a candidate of \<open>p\<close> is selected only when every
  candidate of the list is failed.
\<close>

theorem failure_memory_keyed_by_provider:
  assumes "t_select \<le> t" and "t - t_mark \<le> failureTTL r"
  shows "isProviderFailed (snd (getNextProvider r t_mark t_select m p)) t p
         \<and> (\<forall>c\<in>set cs. provider c = p \<longrightarrow>
               c \<in> set (snd (classify (snd (getNextProvider r t_mark t_select m p)) t cs [] []))
               \<and> c \<notin> set (fst (classify (snd (getNextProvider r t_mark t_select m p)) t cs [] [])))
         \<and> (\<forall>s. fst (selectProvider (snd (getNextProvider r t_mark t_select m p)) t cs) = Some s
                  \<and> provider s = p \<longrightarrow>
                (\<forall>c\<in>set cs. isProviderFailed (snd (getNextProvider r t_mark t_select m p)) t
                                (provider c)))"
proof -
  let ?r' = "snd (getNextProvider r t_mark t_select m p)"
  have fp: "failedProviders ?r' p = Some t_mark \<and> failureTTL ?r' = failureTTL r"
    using assms
    by (auto simp: getNextProvider_snd selectProvider_snd markFailed_def clearExpiredFailures_def
        split: sum.splits)
  then have failed: "isProviderFailed ?r' t p"
    using assms by (simp add: isProviderFailed_def)
  have cls: "\<forall>c\<in>set cs. provider c = p \<longrightarrow>
               c \<in> set (snd (classify ?r' t cs [] [])) \<and> c \<notin> set (fst (classify ?r' t cs [] []))"
    using failed by (simp add: classify_filter)
  have sel: "\<forall>s. fst (selectProvider ?r' t cs) = Some s \<and> provider s = p \<longrightarrow>
                (\<forall>c\<in>set cs. isProviderFailed ?r' t (provider c))"
  proof (intro allI impI)
    fix s assume s: "fst (selectProvider ?r' t cs) = Some s \<and> provider s = p"
    show "\<forall>c\<in>set cs. isProviderFailed ?r' t (provider c)"
    proof (rule ccontr)
      assume "\<not> (\<forall>c\<in>set cs. isProviderFailed ?r' t (provider c))"
      then have "\<exists>c\<in>set cs. \<not> isProviderFailed ?r' t (provider c)" by blast
      from selectProvider_available[OF this] s failed show False by auto
    qed
  qed
  from failed cls sel show ?thesis by blast
qed


text \<open>
  A failure recorded through \<open>best-model\<close> counts in the selection for \<open>fast-model\<close>.
\<close>

theorem failure_memory_keyed_by_provider_witness:
  "resolveModelAlias ex_router ''fast-model'' = Inr [ex_fast]
   \<and> isProviderFailed (snd (getNextProvider ex_router 0 0 ''best-model'' ''openai'')) 10 ''openai''
   \<and> ex_fast \<in> set (snd (classify (snd (getNextProvider ex_router 0 0 ''best-model'' ''openai'')) 10
                           [ex_fast] [] []))
   \<and> fst (selectProvider (snd (getNextProvider ex_router 0 0 ''best-model'' ''openai'')) 10 [ex_fast])
       = Some ex_fast
   \<and> isProviderFailed (snd (getNextProvider ex_router 0 0 ''best-model'' ''openai'')) 10
       (provider ex_fast)"
proof -
  let ?r = "snd (getNextProvider ex_router 0 0 ''best-model'' ''openai'')"
  have a: "(0::int) \<le> 10" by simp
  have b: "(10::int) - 0 \<le> failureTTL ex_router" by (simp add: router_eval)
  have c: "resolveModelAlias ex_router ''fast-model'' = Inr [ex_fast]"
    by (simp add: router_eval)
  have d: "provider ex_fast = ''openai''" by (simp add: ex_fast_def)
  have e: "fst (selectProvider ?r 10 [ex_fast]) = Some ex_fast"
    by (simp add: router_eval)
  note inst = failure_memory_keyed_by_provider[OF a b, of "''best-model''" "''openai''" "[ex_fast]"]
  from inst have "isProviderFailed ?r 10 ''openai''" by blast
  moreover from inst d have "ex_fast \<in> set (snd (classify ?r 10 [ex_fast] [] []))" by simp
  moreover from inst d e have "isProviderFailed ?r 10 (provider ex_fast)" by simp
  ultimately show ?thesis using c e by simp
qed

section \<open>Properties of the provider error normalization\<close>

text \<open>
  Claim C2, as amended. \<open>normalizeError\<close> maps the status 401 and 403 to \<open>auth\<close>, not
  retryable; 429 to \<open>rate_limit\<close>, retryable; 500, 502 and 503 to \<open>service_unavailable\<close>,
  retryable; 400 to \<open>invalid_request\<close>, not retryable; every other status, the other 5xx
  among them, and a missing status to \<open>unknown\<close>, not retryable. The status and the
  provider name are carried over.
\<close>

theorem normalizeError_classification:
  "(response_status e = Some 401 \<or> response_status e = Some 403 \<longrightarrow>
      err_type (normalizeError name e) = auth \<and> \<not> retryable (normalizeError name e)) \<and>
   (response_status e = Some 429 \<longrightarrow>
      err_type (normalizeError name e) = rate_limit \<and> retryable (normalizeError name e)) \<and>
   (response_status e = Some 500 \<or> response_status e = Some 502 \<or> response_status e = Some 503 \<longrightarrow>
      err_type (normalizeError name e) = service_unavailable \<and> retryable (normalizeError name e)) \<and>
   (response_status e = Some 400 \<longrightarrow>
      err_type (normalizeError name e) = invalid_request \<and> \<not> retryable (normalizeError name e)) \<and>
   (response_status e \<notin> {Some 401, Some 403, Some 429, Some 500, Some 502, Some 503, Some 400} \<longrightarrow>
      err_type (normalizeError name e) = unknown \<and> \<not> retryable (normalizeError name e)) \<and>
   statusCode (normalizeError name e) = response_status e \<and>
   err_provider (normalizeError name e) = name"
  by (simp add: normalizeError_def Let_def)

theorem normalizeError_classification_witness:
  "err_type (normalizeError ''openai'' (ex_axios 401)) = auth
   \<and> \<not> retryable (normalizeError ''openai'' (ex_axios 401))
   \<and> err_type (normalizeError ''openai'' (ex_axios 429)) = rate_limit
   \<and> retryable (normalizeError ''openai'' (ex_axios 429))
   \<and> err_type (normalizeError ''openai'' (ex_axios 503)) = service_unavailable
   \<and> retryable (normalizeError ''openai'' (ex_axios 503))
   \<and> err_type (normalizeError ''openai'' (ex_axios 400)) = invalid_request
   \<and> \<not> retryable (normalizeError ''openai'' (ex_axios 400))
   \<and> err_type (normalizeError ''openai'' (ex_axios 418)) = unknown
   \<and> \<not> retryable (normalizeError ''openai'' (ex_axios 418))"
proof -
  have s: "response_status (ex_axios 401) = Some 401" "response_status (ex_axios 429) = Some 429"
    "response_status (ex_axios 503) = Some 503" "response_status (ex_axios 400) = Some 400"
    by (simp_all add: ex_axios_def)
  have other: "response_status (ex_axios 418)
             \<notin> {Some 401, Some 403, Some 429, Some 500, Some 502, Some 503, Some 400}"
    by (simp add: ex_axios_def)
  from s other
    normalizeError_classification[of "ex_axios 401" "''openai''"]
    normalizeError_classification[of "ex_axios 429" "''openai''"]
    normalizeError_classification[of "ex_axios 503" "''openai''"]
    normalizeError_classification[of "ex_axios 400" "''openai''"]
    normalizeError_classification[of "ex_axios 418" "''openai''"]
  show ?thesis by simp
qed

text \<open>
  The claim as it was stated fails at 504, a 5xx status: the error is \<open>unknown\<close> and not
  retryable.
\<close>

theorem normalizeError_504_counterexample:
  "response_status (ex_axios 504) = Some 504 \<and> (500::int) \<le> 504 \<and> (504::int) \<le> 599
   \<and> err_type (normalizeError ''openai'' (ex_axios 504)) = unknown
   \<and> retryable (normalizeError ''openai'' (ex_axios 504)) = False"
  by (simp add: normalizeError_def ex_axios_def Let_def)

section \<open>Properties of the request validation\<close>

lemma check_messages_iff:
  "check_messages ms = None \<longleftrightarrow> list_all accepted_message ms"
proof (induction ms)
  case Nil
  show ?case by simp
next
  case (Cons m ms)
  show ?case
  proof (cases m)
    case (JObj kvs)
    then show ?thesis using Cons
      by (cases "map_of kvs ''role''")
         (auto simp: accepted_message_def falsy_def split: option.splits json.splits)
  qed (use Cons in \<open>auto simp: accepted_message_def falsy_def\<close>)
qed

lemma parseRequest_accepts_iff:
  "(\<exists>r. parseRequest body = Inr r) \<longleftrightarrow> accepted_body body"
proof (cases body)
  case (JObj kvs)
  then show ?thesis
    by (auto simp: parseRequest_def accepted_body_def falsy_def check_messages_iff[symmetric]
        split: option.splits json.splits)
qed (auto simp: parseRequest_def accepted_body_def falsy_def)


lemma parseRequest_returns_body: "parseRequest body = Inr r \<Longrightarrow> r = body"
  by (auto simp: parseRequest_def split: if_splits option.splits json.splits)

lemma check_messages_error: "check_messages ms = Some e \<Longrightarrow> e \<in> set validation_messages"
  by (induction ms) (auto simp: validation_messages_def split: if_splits)

lemma parseRequest_error: "parseRequest body = Inl e \<Longrightarrow> e \<in> set validation_messages"
  by (auto simp: parseRequest_def validation_messages_def dest: check_messages_error
      split: if_splits option.splits json.splits)

lemma validation_message_status:
  "e \<in> set validation_messages \<Longrightarrow>
     getHttpStatus (JsError e) = 400 \<and> oe_type (formatError (JsError e)) = ''invalid_request_error''"
  unfolding validation_messages_def getHttpStatus_def formatError_def
  by (elim disjE | simp)+

lemmas body_eval =
  ex_body_valid_def ex_body_no_model_def ex_body_null_content_def ex_body_empty_role_def
  parseRequest_def accepted_body_def accepted_message_def spec_valid_body_def
  spec_valid_message_def falsy_def present_nonnull_def

text \<open>
  Claim C6, as amended. \<open>parseRequest\<close> accepts a body, and returns it unchanged, if and
  only if it is an object with a non-empty string \<open>model\<close>, a non-empty \<open>messages\<close> array,
  and every message is an object with a non-empty string \<open>role\<close> and at least one of: a
  \<open>content\<close> property that is present (\<open>null\<close> included), a truthy \<open>tool_calls\<close>, a truthy
  \<open>function_call\<close>. Every other body makes it throw one of its six validation errors,
  which the gateway answers with status 400 and type \<open>invalid_request_error\<close>.
\<close>

theorem parseRequest_validation:
  "((\<exists>r. parseRequest body = Inr r) \<longleftrightarrow> accepted_body body)
   \<and> (\<forall>r. parseRequest body = Inr r \<longrightarrow> r = body)
   \<and> (\<not> accepted_body body \<longrightarrow>
        (\<exists>e. parseRequest body = Inl e \<and> e \<in> set validation_messages
             \<and> getHttpStatus (JsError e) = 400
             \<and> oe_type (formatError (JsError e)) = ''invalid_request_error''))"
proof (intro conjI allI impI)
  show "(\<exists>r. parseRequest body = Inr r) \<longleftrightarrow> accepted_body body"
    by (rule parseRequest_accepts_iff)
  show "r = body" if "parseRequest body = Inr r" for r
    using that by (rule parseRequest_returns_body)
  assume n: "\<not> accepted_body body"
  then have "\<not> (\<exists>r. parseRequest body = Inr r)" by (simp add: parseRequest_accepts_iff)
  then obtain e where e: "parseRequest body = Inl e" by (cases "parseRequest body") auto
  from parseRequest_error[OF e] validation_message_status e
  show "\<exists>e. parseRequest body = Inl e \<and> e \<in> set validation_messages
             \<and> getHttpStatus (JsError e) = 400
             \<and> oe_type (formatError (JsError e)) = ''invalid_request_error''"
    by blast
qed

theorem parseRequest_validation_witness:
  "parseRequest ex_body_valid = Inr ex_body_valid
   \<and> (\<exists>e. parseRequest ex_body_no_model = Inl e \<and> getHttpStatus (JsError e) = 400)"
proof -
  have a: "accepted_body ex_body_valid" by (simp add: body_eval)
  have b: "\<not> accepted_body ex_body_no_model" by (simp add: body_eval)
  from a parseRequest_validation[of ex_body_valid]
  have "parseRequest ex_body_valid = Inr ex_body_valid" by auto
  moreover from b parseRequest_validation[of ex_body_no_model]
  have "\<exists>e. parseRequest ex_body_no_model = Inl e \<and> getHttpStatus (JsError e) = 400" by blast
  ultimately show ?thesis by simp
qed

text \<open>
  The claim as it was stated fails in both directions: a message whose content is \<open>null\<close>,
  with no tool or function call, is accepted; a message whose role is the empty string
  is rejected.
\<close>

theorem parseRequest_spec_counterexample:
  "parseRequest ex_body_null_content = Inr ex_body_null_content
   \<and> \<not> spec_valid_body ex_body_null_content
   \<and> spec_valid_body ex_body_empty_role
   \<and> parseRequest ex_body_empty_role = Inl ''Each message must have a role''"
  by (simp add: body_eval)

section \<open>Properties of the rate limiter\<close>

lemma findIndex_None: "findIndex P xs = None \<Longrightarrow> dropWhile (\<lambda>x. \<not> P x) xs = []"
  by (induction xs) (auto split: if_splits)

lemma findIndex_Some: "findIndex P xs = Some i \<Longrightarrow> drop i xs = dropWhile (\<lambda>x. \<not> P x) xs"
  by (induction xs arbitrary: i) (auto split: if_splits)

lemma cleanWindow_timestamps:
  "requestTimestamps (cleanWindow rl now p) =
     (case requestTimestamps rl p of
        None \<Rightarrow> requestTimestamps rl
      | Some ts \<Rightarrow> (requestTimestamps rl)(p \<mapsto> dropWhile (\<lambda>t. \<not> t > now - 60000) ts))"
proof (cases "requestTimestamps rl p")
  case None
  then show ?thesis by (simp add: cleanWindow_def)
next
  case (Some ts)
  show ?thesis
  proof (cases "findIndex (\<lambda>t. t > now - 60000) ts")
    case None
    from findIndex_None[OF None] have "dropWhile (\<lambda>t. \<not> t > now - 60000) ts = []" .
    then show ?thesis
      using None \<open>requestTimestamps rl p = Some ts\<close>
      by (simp add: cleanWindow_def del: dropWhile_eq_Nil_conv)
  next
    case (Some i)
    from findIndex_Some[OF Some] have d: "drop i ts = dropWhile (\<lambda>t. \<not> t > now - 60000) ts" .
    show ?thesis
    proof (cases "i > 0")
      case True
      with Some \<open>requestTimestamps rl p = Some ts\<close> d show ?thesis
        by (simp add: cleanWindow_def)
    next
      case False
      then have "i = 0" by simp
      with d have "dropWhile (\<lambda>t. \<not> t > now - 60000) ts = ts" by simp
      with Some \<open>requestTimestamps rl p = Some ts\<close> \<open>i = 0\<close> show ?thesis
        by (auto simp: cleanWindow_def fun_upd_idem)
    qed
  qed
qed

lemma cleanWindow_other [simp]:
  "configs (cleanWindow rl now p) = configs rl"
  "queues (cleanWindow rl now p) = queues rl"
  "timers (cleanWindow rl now p) = timers rl"
  "settled (cleanWindow rl now p) = settled rl"
  "promises (cleanWindow rl now p) = promises rl"
  by (simp_all add: cleanWindow_def Let_def split: option.splits)

lemma window_eq:
  "window rl now p = dropWhile (\<lambda>t. \<not> t > now - 60000) (get_or_empty (requestTimestamps rl p))"
  by (simp add: window_def cleanWindow_timestamps get_or_empty_def split: option.splits)

text \<open>The three outcomes of acquire, in terms of the pruned window and the queue.\<close>

lemma acquire_admit:
  assumes "configs rl p = Some cfg" and "int (length (window rl now p)) < requestsPerMinute cfg"
  shows "fst (acquire rl now p) = PromiseResolved"
    and "requestTimestamps (snd (acquire rl now p)) p = Some (window rl now p @ [now])"
    and "configs (snd (acquire rl now p)) = configs rl"
    and "get_or_empty (map_of (queues (snd (acquire rl now p))) p) = get_or_empty (map_of (queues rl) p)"
    and "timers (snd (acquire rl now p)) = timers rl"
    and "settled (snd (acquire rl now p)) = settled rl"
  using assms
  by (auto simp: acquire_def Let_def window_def get_or_empty_def update_conv' split: option.splits)

lemma acquire_reject:
  assumes "configs rl p = Some cfg"
      and "requestsPerMinute cfg \<le> int (length (window rl now p))"
      and "maxQueueSize cfg \<le> int (length (get_or_empty (map_of (queues rl) p)))"
  shows "fst (acquire rl now p) =
           PromiseRejected (''Rate limit exceeded: queue full for provider '' @ p)"
  using assms
  by (auto simp: acquire_def Let_def window_def get_or_empty_def update_conv' split: option.splits)

lemma acquire_unconfigured:
  "configs rl p = None \<Longrightarrow> acquire rl now p = (PromiseResolved, rl)"
  by (simp add: acquire_def)


lemma getStatus_configured:
  assumes "configs rl p = Some cfg"
  shows "fst (getStatus rl now p) =
           \<lparr> requestsInWindow = int (length (window rl now p)),
             queueLength = int (length (get_or_empty (map_of (queues rl) p))),
             nextAvailableSlot =
               (if requestsPerMinute cfg \<le> int (length (window rl now p)) \<and> window rl now p \<noteq> []
                then hd (window rl now p) + 60000 else 0) \<rparr>"
  using assms by (simp add: getStatus_def Let_def window_def hd_conv_nth)

lemma dropWhile_all_kept: "\<forall>x\<in>set xs. \<not> P x \<Longrightarrow> dropWhile P xs = xs"
  by (cases xs) simp_all

lemma acquire_all_admits:
  assumes "configs rl p = Some cfg"
      and "get_or_empty (requestTimestamps rl p) = w"
      and "int (length w + length ts) \<le> requestsPerMinute cfg"
      and "\<forall>x\<in>set (w @ ts). \<forall>t\<in>set ts. t - 60000 < x"
  shows "fst (acquire_all rl p ts) = replicate (length ts) PromiseResolved
         \<and> get_or_empty (requestTimestamps (snd (acquire_all rl p ts)) p) = w @ ts
         \<and> configs (snd (acquire_all rl p ts)) = configs rl
         \<and> get_or_empty (map_of (queues (snd (acquire_all rl p ts))) p)
             = get_or_empty (map_of (queues rl) p)"
  using assms
proof (induction ts arbitrary: rl w)
  case Nil
  then show ?case by simp
next
  case (Cons t ts)
  have win: "window rl t p = w"
    using Cons.prems(2,4) by (simp add: window_eq dropWhile_all_kept)
  have lt: "int (length (window rl t p)) < requestsPerMinute cfg"
    using Cons.prems(3) win by simp
  note adm = acquire_admit[OF Cons.prems(1) lt]
  let ?rl1 = "snd (acquire rl t p)"
  have c1: "configs ?rl1 p = Some cfg" using adm(3) Cons.prems(1) by simp
  have w1: "get_or_empty (requestTimestamps ?rl1 p) = w @ [t]"
    using adm(2) win by (simp add: get_or_empty_def)
  have l1: "int (length (w @ [t]) + length ts) \<le> requestsPerMinute cfg"
    using Cons.prems(3) by simp
  have k1: "\<forall>x\<in>set ((w @ [t]) @ ts). \<forall>t'\<in>set ts. t' - 60000 < x"
    using Cons.prems(4) by auto
  from Cons.IH[OF c1 w1 l1 k1] adm(1,3,4)
  show ?case
    by (simp add: case_prod_unfold Let_def)
qed

lemma stopTimer_fields [simp]:
  "timers (stopTimer rl p) = filter (\<lambda>q. q \<noteq> p) (timers rl)"
  "configs (stopTimer rl p) = configs rl"
  "queues (stopTimer rl p) = queues rl"
  "settled (stopTimer rl p) = settled rl"
  "requestTimestamps (stopTimer rl p) = requestTimestamps rl"
  "promises (stopTimer rl p) = promises rl"
proof -
  have "p \<notin> set xs \<Longrightarrow> filter (\<lambda>q. q \<noteq> p) xs = xs" for xs :: "string list"
    by (induction xs) auto
  then show "timers (stopTimer rl p) = filter (\<lambda>q. q \<noteq> p) (timers rl)"
    by (simp add: stopTimer_def)
qed (simp_all add: stopTimer_def)

lemma foldl_stopTimer_fields [simp]:
  "timers (foldl stopTimer rl ps) = filter (\<lambda>q. q \<notin> set ps) (timers rl)"
  "configs (foldl stopTimer rl ps) = configs rl"
  "queues (foldl stopTimer rl ps) = queues rl"
  "settled (foldl stopTimer rl ps) = settled rl"
  "requestTimestamps (foldl stopTimer rl ps) = requestTimestamps rl"
  "promises (foldl stopTimer rl ps) = promises rl"
  by (induction ps arbitrary: rl) (auto intro: filter_cong)

lemma dispose_fields:
  "timers (dispose rl) = []"
  "configs (dispose rl) = configs rl"
  "requestTimestamps (dispose rl) = requestTimestamps rl"
  "queues (dispose rl) = map (\<lambda>(p, queue). (p, [])) (queues rl)"
  "settled (dispose rl) = settled rl @ concat (map (\<lambda>(p, queue). rejectAll p queue) (queues rl))"
  by (simp_all add: dispose_def Let_def)

lemma dispose_rejects:
  assumes "(p, queue) \<in> set (queues rl)" and "item \<in> set queue"
  shows "(waiter item, Rejected (''Rate limiter disposed for provider '' @ p))
           \<in> set (settled (dispose rl))"
  using assms by (force simp: dispose_fields rejectAll_def)

lemma dispose_queue_empty:
  "get_or_empty (map_of (queues (dispose rl)) p) = []"
proof -
  have "get_or_empty (map_of (map (\<lambda>(p, queue). (p, [])) qs) p) = []"
    for qs :: "(string \<times> QueuedRequest list) list"
    by (induction qs) (auto simp: get_or_empty_def)
  then show ?thesis by (simp add: dispose_fields)
qed

lemma window_dispose [simp]: "window (dispose rl) now p = window rl now p"
  by (simp add: window_eq dispose_fields)

lemma tick_dispose: "tick (dispose rl) now p = dispose rl"
  by (simp add: tick_def dispose_fields)

lemmas limiter_eval =
  ex_limiter_def RateLimiter_new_def acquire_def cleanWindow_def
  get_or_empty_def startTimer_def stopTimer_def window_def dispose_def rejectAll_def Let_def

lemma ex_limiter_queued_eq:
  "ex_limiter_queued =
     \<lparr> configs = configs ex_limiter, requestTimestamps = [''openai'' \<mapsto> [0, 1, 2]],
       queues = [(''openai'', [\<lparr> waiter = 0, enqueuedAt = 3 \<rparr>])], timers = [''openai''],
       settled = [], promises = 1 \<rparr>"
  by (simp add: ex_limiter_queued_def limiter_eval)

text \<open>
  On timestamps in chronological order, dropping the leading entries that are not inside
  the window is the same as keeping exactly the entries inside the window.
\<close>

lemma dropWhile_sorted_filter:
  "sorted xs \<Longrightarrow> dropWhile (\<lambda>x. \<not> c < x) xs = filter (\<lambda>x. c < x) (xs :: int list)"
proof (induction xs)
  case Nil
  show ?case by simp
next
  case (Cons x xs)
  show ?case
  proof (cases "c < x")
    case True
    with Cons.prems have "\<forall>y\<in>set xs. c < y" by auto
    then have "filter (\<lambda>x. c < x) xs = xs" by (simp add: filter_id_conv)
    with True show ?thesis by simp
  next
    case False
    with Cons show ?thesis by simp
  qed
qed

lemma filter_dropWhile_older:
  assumes "b \<le> c"
  shows "filter (\<lambda>x. c < x) (dropWhile (\<lambda>x. \<not> b < x) xs) = filter (\<lambda>x. c < x) (xs :: int list)"
proof -
  have "filter (\<lambda>x. c < x) (takeWhile (\<lambda>x. \<not> b < x) xs) = []"
    using assms by (auto simp: filter_empty_conv dest!: set_takeWhileD)
  moreover have "xs = takeWhile (\<lambda>x. \<not> b < x) xs @ dropWhile (\<lambda>x. \<not> b < x) xs" by simp
  ultimately show ?thesis by (metis append_Nil filter_append)
qed

lemma sorted_dropWhile_append:
  "sorted (w @ ys) \<Longrightarrow> sorted (dropWhile P w @ (ys :: int list))"
proof -
  assume s: "sorted (w @ ys)"
  have "w @ ys = takeWhile P w @ (dropWhile P w @ ys)" by simp
  with s have "sorted (takeWhile P w @ (dropWhile P w @ ys))" by simp
  then show ?thesis unfolding sorted_append[of "takeWhile P w"] by blast
qed

text \<open>
  A run of calls at non-decreasing times that fits under the limit: every call is admitted,
  the stored timestamps stay sorted, and they hold every admission that a later reading
  can still count.
\<close>

lemma acquire_all_sorted:
  assumes "configs rl p = Some cfg"
      and "get_or_empty (requestTimestamps rl p) = w"
      and "sorted (w @ ts)"
      and "int (length w + length ts) \<le> requestsPerMinute cfg"
  shows "fst (acquire_all rl p ts) = replicate (length ts) PromiseResolved
         \<and> configs (snd (acquire_all rl p ts)) = configs rl
         \<and> get_or_empty (map_of (queues (snd (acquire_all rl p ts))) p)
             = get_or_empty (map_of (queues rl) p)
         \<and> sorted (get_or_empty (requestTimestamps (snd (acquire_all rl p ts)) p))
         \<and> (\<forall>c. (\<forall>t\<in>set ts. t - 60000 \<le> c) \<longrightarrow>
               filter (\<lambda>x. c < x) (get_or_empty (requestTimestamps (snd (acquire_all rl p ts)) p))
                 = filter (\<lambda>x. c < x) (w @ ts))"
  using assms
proof (induction ts arbitrary: rl w)
  case Nil
  then show ?case by (simp add: sorted_append)
next
  case (Cons t ts)
  let ?w1 = "dropWhile (\<lambda>x. \<not> t - 60000 < x) w"
  have win: "window rl t p = ?w1"
    using Cons.prems(2) by (simp add: window_eq)
  have len1: "length ?w1 \<le> length w" by (rule length_dropWhile_le)
  have lt: "int (length (window rl t p)) < requestsPerMinute cfg"
    using Cons.prems(4) win len1 by simp
  note adm = acquire_admit[OF Cons.prems(1) lt]
  let ?rl1 = "snd (acquire rl t p)"
  have c1: "configs ?rl1 p = Some cfg" using adm(3) Cons.prems(1) by simp
  have w1: "get_or_empty (requestTimestamps ?rl1 p) = ?w1 @ [t]"
    using adm(2) win by (simp add: get_or_empty_def)
  have s1: "sorted ((?w1 @ [t]) @ ts)"
    using sorted_dropWhile_append[OF Cons.prems(3)] by simp
  have l1: "int (length (?w1 @ [t]) + length ts) \<le> requestsPerMinute cfg"
    using Cons.prems(4) len1 by simp
  note ih = Cons.IH[OF c1 w1 s1 l1]
  have run: "acquire_all rl p (t # ts) =
               (fst (acquire rl t p) # fst (acquire_all ?rl1 p ts), snd (acquire_all ?rl1 p ts))"
    by (simp add: case_prod_unfold Let_def)
  have flt: "\<forall>c. (\<forall>t'\<in>set (t # ts). t' - 60000 \<le> c) \<longrightarrow>
               filter (\<lambda>x. c < x) (get_or_empty (requestTimestamps (snd (acquire_all ?rl1 p ts)) p))
                 = filter (\<lambda>x. c < x) (w @ t # ts)"
  proof (intro allI impI)
    fix c assume c: "\<forall>t'\<in>set (t # ts). t' - 60000 \<le> c"
    then have "\<forall>t'\<in>set ts. t' - 60000 \<le> c" and tc: "t - 60000 \<le> c" by auto
    with ih have "filter (\<lambda>x. c < x) (get_or_empty (requestTimestamps (snd (acquire_all ?rl1 p ts)) p))
                 = filter (\<lambda>x. c < x) ((?w1 @ [t]) @ ts)" by blast
    also have "\<dots> = filter (\<lambda>x. c < x) ?w1 @ filter (\<lambda>x. c < x) (t # ts)" by simp
    also have "filter (\<lambda>x. c < x) ?w1 = filter (\<lambda>x. c < x) w"
      by (rule filter_dropWhile_older[OF tc])
    finally show "filter (\<lambda>x. c < x) (get_or_empty (requestTimestamps (snd (acquire_all ?rl1 p ts)) p))
                 = filter (\<lambda>x. c < x) (w @ t # ts)" by simp
  qed
  from ih adm(1,3,4) flt show ?case
    unfolding run by simp
qed

text \<open>The status fields in terms of the timestamps stored before the call.\<close>

lemma getStatus_raw:
  assumes "configs rl p = Some cfg"
  shows "requestsInWindow (fst (getStatus rl now p)) =
           int (length (dropWhile (\<lambda>t. \<not> now - 60000 < t) (get_or_empty (requestTimestamps rl p))))"
    and "nextAvailableSlot (fst (getStatus rl now p)) =
           (if requestsPerMinute cfg
                 \<le> int (length (dropWhile (\<lambda>t. \<not> now - 60000 < t)
                                   (get_or_empty (requestTimestamps rl p))))
               \<and> dropWhile (\<lambda>t. \<not> now - 60000 < t) (get_or_empty (requestTimestamps rl p)) \<noteq> []
            then hd (dropWhile (\<lambda>t. \<not> now - 60000 < t) (get_or_empty (requestTimestamps rl p)))
                   + 60000
            else 0)"
  by (simp_all only: getStatus_configured[OF assms] window_eq RateLimitStatus.simps)

lemmas status_eval = limiter_eval ex_limiter_zero_def getStatus_def

text \<open>
  Claim C7, as amended. On a fresh limiter, \<open>N\<close> calls of \<open>acquire\<close> for a configured
  provider, \<open>N\<close> at most \<open>requestsPerMinute\<close>, are all admitted at once and leave no queued
  waiter when they are all made less than 60 seconds before the status is read, or at
  non-decreasing times up to that moment. In the first case \<open>getStatus.requestsInWindow\<close>
  is \<open>N\<close>; in the second it is the number of those calls made less than 60000 ms before
  the status is read, so an admission that is 60000 ms old or older is not counted.
  In any state \<open>requestsInWindow\<close> is the number of stored timestamps left after
  the leading ones that are 60000 ms old or older have been dropped (for timestamps
  in chronological order: the number of stored timestamps younger than 60000 ms), and
  \<open>nextAvailableSlot\<close> is 0 while that count is below \<open>requestsPerMinute\<close>, the oldest
  remaining timestamp plus 60000 once the count has reached \<open>requestsPerMinute\<close> and a
  timestamp remains, and 0 when the count has reached \<open>requestsPerMinute\<close> and no
  timestamp remains.
\<close>

theorem window_count_and_next_slot:
  "(configs (RateLimiter_new cs) p = Some cfg \<and> int (length ts) \<le> requestsPerMinute cfg
      \<and> (\<forall>t\<in>set ts. t \<le> now \<and> now - t < 60000) \<longrightarrow>
        fst (acquire_all (RateLimiter_new cs) p ts) = replicate (length ts) PromiseResolved
      \<and> get_or_empty (map_of (queues (snd (acquire_all (RateLimiter_new cs) p ts))) p) = []
      \<and> requestsInWindow (fst (getStatus (snd (acquire_all (RateLimiter_new cs) p ts)) now p))
          = int (length ts))
   \<and> (configs (RateLimiter_new cs) p = Some cfg \<and> int (length ts) \<le> requestsPerMinute cfg
      \<and> sorted ts \<and> (\<forall>t\<in>set ts. t \<le> now) \<longrightarrow>
        fst (acquire_all (RateLimiter_new cs) p ts) = replicate (length ts) PromiseResolved
      \<and> get_or_empty (map_of (queues (snd (acquire_all (RateLimiter_new cs) p ts))) p) = []
      \<and> requestsInWindow (fst (getStatus (snd (acquire_all (RateLimiter_new cs) p ts)) now p))
          = int (length (filter (\<lambda>t. now - t < 60000) ts)))
   \<and> (configs rl p = Some cfg \<longrightarrow>
        requestsInWindow (fst (getStatus rl now p))
          = int (length (dropWhile (\<lambda>t. \<not> now - 60000 < t)
                           (get_or_empty (requestTimestamps rl p))))
      \<and> (sorted (get_or_empty (requestTimestamps rl p)) \<longrightarrow>
           requestsInWindow (fst (getStatus rl now p))
             = int (length (filter (\<lambda>t. now - t < 60000)
                              (get_or_empty (requestTimestamps rl p)))))
      \<and> (requestsInWindow (fst (getStatus rl now p)) < requestsPerMinute cfg \<longrightarrow>
           nextAvailableSlot (fst (getStatus rl now p)) = 0)
      \<and> (requestsPerMinute cfg \<le> requestsInWindow (fst (getStatus rl now p))
            \<and> dropWhile (\<lambda>t. \<not> now - 60000 < t) (get_or_empty (requestTimestamps rl p)) \<noteq> [] \<longrightarrow>
           nextAvailableSlot (fst (getStatus rl now p))
             = hd (dropWhile (\<lambda>t. \<not> now - 60000 < t) (get_or_empty (requestTimestamps rl p)))
                 + 60000)
      \<and> (requestsPerMinute cfg \<le> requestsInWindow (fst (getStatus rl now p))
            \<and> dropWhile (\<lambda>t. \<not> now - 60000 < t) (get_or_empty (requestTimestamps rl p)) = [] \<longrightarrow>
           nextAvailableSlot (fst (getStatus rl now p)) = 0))"
proof -
  let ?init = "RateLimiter_new cs"
  let ?rl = "snd (acquire_all ?init p ts)"
  have w0: "get_or_empty (requestTimestamps ?init p) = []"
    by (simp add: RateLimiter_new_def get_or_empty_def)
  have q0: "get_or_empty (map_of (queues ?init) p) = []"
    by (simp add: RateLimiter_new_def get_or_empty_def)
  have flt_eq: "filter (\<lambda>x. now - 60000 < x) xs = filter (\<lambda>t. now - t < 60000) xs"
    for xs :: "int list"
    by (rule filter_cong) auto
  have recent:
    "configs ?init p = Some cfg \<and> int (length ts) \<le> requestsPerMinute cfg
          \<and> (\<forall>t\<in>set ts. t \<le> now \<and> now - t < 60000) \<longrightarrow>
     fst (acquire_all ?init p ts) = replicate (length ts) PromiseResolved
      \<and> get_or_empty (map_of (queues ?rl) p) = []
      \<and> requestsInWindow (fst (getStatus ?rl now p)) = int (length ts)"
  proof
    assume a: "configs ?init p = Some cfg \<and> int (length ts) \<le> requestsPerMinute cfg
          \<and> (\<forall>t\<in>set ts. t \<le> now \<and> now - t < 60000)"
    have k: "\<forall>x\<in>set ([] @ ts). \<forall>t\<in>set ts. t - 60000 < x"
    proof (intro ballI)
      fix x t assume "x \<in> set ([] @ ts)" "t \<in> set ts"
      with a have "t \<le> now" "now - x < 60000" by auto
      then show "t - 60000 < x" by linarith
    qed
    have l: "int (length ([]::int list) + length ts) \<le> requestsPerMinute cfg" using a by simp
    from a have c: "configs ?init p = Some cfg" by simp
    note run = acquire_all_admits[OF c w0 l k]
    have c': "configs ?rl p = Some cfg" using run c by simp
    have stored: "get_or_empty (requestTimestamps ?rl p) = ts" using run by simp
    have dk: "dropWhile (\<lambda>t. \<not> now - 60000 < t) ts = ts"
    proof (rule dropWhile_all_kept, rule ballI)
      fix x assume "x \<in> set ts"
      with a have "now - x < 60000" by auto
      then have "now - 60000 < x" by linarith
      then show "\<not> \<not> now - 60000 < x" by blast
    qed
    have "requestsInWindow (fst (getStatus ?rl now p)) = int (length ts)"
      by (simp only: getStatus_raw(1)[OF c'] stored dk)
    with run q0 show "fst (acquire_all ?init p ts) = replicate (length ts) PromiseResolved
      \<and> get_or_empty (map_of (queues ?rl) p) = []
      \<and> requestsInWindow (fst (getStatus ?rl now p)) = int (length ts)" by simp
  qed
  have ordered:
    "configs ?init p = Some cfg \<and> int (length ts) \<le> requestsPerMinute cfg
          \<and> sorted ts \<and> (\<forall>t\<in>set ts. t \<le> now) \<longrightarrow>
     fst (acquire_all ?init p ts) = replicate (length ts) PromiseResolved
      \<and> get_or_empty (map_of (queues ?rl) p) = []
      \<and> requestsInWindow (fst (getStatus ?rl now p))
          = int (length (filter (\<lambda>t. now - t < 60000) ts))"
  proof
    assume a: "configs ?init p = Some cfg \<and> int (length ts) \<le> requestsPerMinute cfg
          \<and> sorted ts \<and> (\<forall>t\<in>set ts. t \<le> now)"
    from a have c: "configs ?init p = Some cfg" by simp
    have s: "sorted ([] @ ts)" using a by simp
    have l: "int (length ([]::int list) + length ts) \<le> requestsPerMinute cfg" using a by simp
    note run = acquire_all_sorted[OF c w0 s l]
    have c': "configs ?rl p = Some cfg" using run c by simp
    let ?stored = "get_or_empty (requestTimestamps ?rl p)"
    have srt: "sorted ?stored" using run by blast
    have "\<forall>t\<in>set ts. t - 60000 \<le> now - 60000" using a by auto
    with run have "filter (\<lambda>x. now - 60000 < x) ?stored = filter (\<lambda>x. now - 60000 < x) ([] @ ts)"
      by blast
    then have f: "filter (\<lambda>x. now - 60000 < x) ?stored = filter (\<lambda>t. now - t < 60000) ts"
      by (simp only: append_Nil flt_eq)
    have d: "dropWhile (\<lambda>t. \<not> now - 60000 < t) ?stored = filter (\<lambda>x. now - 60000 < x) ?stored"
      by (rule dropWhile_sorted_filter[OF srt])
    have "requestsInWindow (fst (getStatus ?rl now p))
          = int (length (filter (\<lambda>t. now - t < 60000) ts))"
      by (simp only: getStatus_raw(1)[OF c'] d f)
    with run q0 show "fst (acquire_all ?init p ts) = replicate (length ts) PromiseResolved
      \<and> get_or_empty (map_of (queues ?rl) p) = []
      \<and> requestsInWindow (fst (getStatus ?rl now p))
          = int (length (filter (\<lambda>t. now - t < 60000) ts))" by simp
  qed
  have status:
    "configs rl p = Some cfg \<longrightarrow>
     requestsInWindow (fst (getStatus rl now p))
          = int (length (dropWhile (\<lambda>t. \<not> now - 60000 < t)
                           (get_or_empty (requestTimestamps rl p))))
      \<and> (sorted (get_or_empty (requestTimestamps rl p)) \<longrightarrow>
           requestsInWindow (fst (getStatus rl now p))
             = int (length (filter (\<lambda>t. now - t < 60000)
                              (get_or_empty (requestTimestamps rl p)))))
      \<and> (requestsInWindow (fst (getStatus rl now p)) < requestsPerMinute cfg \<longrightarrow>
           nextAvailableSlot (fst (getStatus rl now p)) = 0)
      \<and> (requestsPerMinute cfg \<le> requestsInWindow (fst (getStatus rl now p))
            \<and> dropWhile (\<lambda>t. \<not> now - 60000 < t) (get_or_empty (requestTimestamps rl p)) \<noteq> [] \<longrightarrow>
           nextAvailableSlot (fst (getStatus rl now p))
             = hd (dropWhile (\<lambda>t. \<not> now - 60000 < t) (get_or_empty (requestTimestamps rl p)))
                 + 60000)
      \<and> (requestsPerMinute cfg \<le> requestsInWindow (fst (getStatus rl now p))
            \<and> dropWhile (\<lambda>t. \<not> now - 60000 < t) (get_or_empty (requestTimestamps rl p)) = [] \<longrightarrow>
           nextAvailableSlot (fst (getStatus rl now p)) = 0)"
  proof
    assume c: "configs rl p = Some cfg"
    let ?stored = "get_or_empty (requestTimestamps rl p)"
    let ?live = "dropWhile (\<lambda>t. \<not> now - 60000 < t) ?stored"
    let ?count = "requestsInWindow (fst (getStatus rl now p))"
    let ?slot = "nextAvailableSlot (fst (getStatus rl now p))"
    have n: "?count = int (length ?live)" by (rule getStatus_raw(1)[OF c])
    have s: "?slot = (if requestsPerMinute cfg \<le> int (length ?live) \<and> ?live \<noteq> []
                      then hd ?live + 60000 else 0)"
      by (rule getStatus_raw(2)[OF c])
    have p1: "sorted ?stored \<longrightarrow> ?count = int (length (filter (\<lambda>t. now - t < 60000) ?stored))"
    proof
      assume st: "sorted ?stored"
      have "?live = filter (\<lambda>x. now - 60000 < x) ?stored"
        by (rule dropWhile_sorted_filter[OF st])
      also have "\<dots> = filter (\<lambda>t. now - t < 60000) ?stored" by (rule flt_eq)
      finally have e: "?live = filter (\<lambda>t. now - t < 60000) ?stored" .
      show "?count = int (length (filter (\<lambda>t. now - t < 60000) ?stored))"
        by (simp only: n e)
    qed
    have p2: "?count < requestsPerMinute cfg \<longrightarrow> ?slot = 0"
    proof
      assume "?count < requestsPerMinute cfg"
      then have "int (length ?live) < requestsPerMinute cfg" unfolding n .
      then have "\<not> (requestsPerMinute cfg \<le> int (length ?live) \<and> ?live \<noteq> [])" by linarith
      then have "(if requestsPerMinute cfg \<le> int (length ?live) \<and> ?live \<noteq> []
                      then hd ?live + 60000 else 0) = 0" by (rule if_not_P)
      then show "?slot = 0" by (simp only: s)
    qed
    have p3: "requestsPerMinute cfg \<le> ?count \<and> ?live \<noteq> [] \<longrightarrow> ?slot = hd ?live + 60000"
    proof
      assume "requestsPerMinute cfg \<le> ?count \<and> ?live \<noteq> []"
      then have "requestsPerMinute cfg \<le> int (length ?live) \<and> ?live \<noteq> []" unfolding n .
      then have "(if requestsPerMinute cfg \<le> int (length ?live) \<and> ?live \<noteq> []
                      then hd ?live + 60000 else 0) = hd ?live + 60000" by (rule if_P)
      then show "?slot = hd ?live + 60000" by (simp only: s)
    qed
    have p4: "requestsPerMinute cfg \<le> ?count \<and> ?live = [] \<longrightarrow> ?slot = 0"
    proof
      assume "requestsPerMinute cfg \<le> ?count \<and> ?live = []"
      then have "\<not> (requestsPerMinute cfg \<le> int (length ?live) \<and> ?live \<noteq> [])" by blast
      then have "(if requestsPerMinute cfg \<le> int (length ?live) \<and> ?live \<noteq> []
                      then hd ?live + 60000 else 0) = 0" by (rule if_not_P)
      then show "?slot = 0" by (simp only: s)
    qed
    from n p1 p2 p3 p4
    show "?count = int (length ?live)
      \<and> (sorted ?stored \<longrightarrow> ?count = int (length (filter (\<lambda>t. now - t < 60000) ?stored)))
      \<and> (?count < requestsPerMinute cfg \<longrightarrow> ?slot = 0)
      \<and> (requestsPerMinute cfg \<le> ?count \<and> ?live \<noteq> [] \<longrightarrow> ?slot = hd ?live + 60000)
      \<and> (requestsPerMinute cfg \<le> ?count \<and> ?live = [] \<longrightarrow> ?slot = 0)"
      by (intro conjI)
  qed
  show ?thesis
    apply (rule conjI)
     apply (rule recent)
    apply (rule conjI)
     apply (rule ordered)
    apply (rule status)
    done
qed

theorem window_count_and_next_slot_witness:
  "requestsInWindow (fst (getStatus (snd (acquire_all ex_limiter ''openai'' [0, 10, 20])) 30 ''openai'')) = 3
   \<and> nextAvailableSlot (fst (getStatus (snd (acquire_all ex_limiter ''openai'' [0, 10, 20])) 30 ''openai''))
       = 60000
   \<and> fst (acquire_all ex_limiter ''openai'' [0, 50000, 59999])
       = [PromiseResolved, PromiseResolved, PromiseResolved]
   \<and> requestsInWindow
         (fst (getStatus (snd (acquire_all ex_limiter ''openai'' [0, 50000, 59999])) 60000 ''openai'')) = 2
   \<and> nextAvailableSlot
         (fst (getStatus (snd (acquire_all ex_limiter ''openai'' [0, 50000, 59999])) 60000 ''openai'')) = 0
   \<and> requestsInWindow (fst (getStatus ex_limiter_zero 0 ''openai'')) = 0
   \<and> nextAvailableSlot (fst (getStatus ex_limiter_zero 0 ''openai'')) = 0"
proof -
  let ?cfg = "\<lparr> cfg_provider = ''openai'', requestsPerMinute = 3, maxQueueSize = 5 \<rparr>"
  let ?none = "\<lparr> cfg_provider = ''openai'', requestsPerMinute = 0, maxQueueSize = 5 \<rparr>"
  let ?three = "snd (acquire_all ex_limiter ''openai'' [0, 10, 20])"
  let ?aged = "snd (acquire_all ex_limiter ''openai'' [0, 50000, 59999])"
  have c: "configs (RateLimiter_new [?cfg]) ''openai'' = Some ?cfg"
    by (simp add: RateLimiter_new_def)
  have c3: "configs ?three ''openai'' = Some ?cfg" by (simp add: status_eval)
  have ca: "configs ?aged ''openai'' = Some ?cfg" by (simp add: status_eval)
  have cz: "configs ex_limiter_zero ''openai'' = Some ?none" by (simp add: status_eval)
  have t3: "get_or_empty (requestTimestamps ?three ''openai'') = [0, 10, 20]"
    by (simp add: status_eval)
  have ta: "get_or_empty (requestTimestamps ?aged ''openai'') = [0, 50000, 59999]"
    by (simp add: status_eval)
  have tz: "get_or_empty (requestTimestamps ex_limiter_zero ''openai'') = []"
    by (simp add: status_eval)
  have n3: "requestsInWindow (fst (getStatus ?three 30 ''openai'')) = 3"
    using c window_count_and_next_slot[of "[?cfg]" "''openai''" ?cfg "[0, 10, 20]" 30 ex_limiter]
    by (simp add: ex_limiter_def)
  have s3: "nextAvailableSlot (fst (getStatus ?three 30 ''openai'')) = 60000"
    using c3 t3 n3 window_count_and_next_slot[of "[]" "''openai''" ?cfg "[]" 30 ?three]
    by simp
  have ra: "fst (acquire_all ex_limiter ''openai'' [0, 50000, 59999])
              = [PromiseResolved, PromiseResolved, PromiseResolved]
            \<and> requestsInWindow (fst (getStatus ?aged 60000 ''openai'')) = 2"
    using c window_count_and_next_slot[of "[?cfg]" "''openai''" ?cfg "[0, 50000, 59999]" 60000 ex_limiter]
    by (simp add: ex_limiter_def)
  have sa: "nextAvailableSlot (fst (getStatus ?aged 60000 ''openai'')) = 0"
    using ca ta ra window_count_and_next_slot[of "[]" "''openai''" ?cfg "[]" 60000 ?aged]
    by simp
  have z: "requestsInWindow (fst (getStatus ex_limiter_zero 0 ''openai'')) = 0
           \<and> nextAvailableSlot (fst (getStatus ex_limiter_zero 0 ''openai'')) = 0"
    using cz tz window_count_and_next_slot[of "[]" "''openai''" ?none "[]" 0 ex_limiter_zero]
    by simp
  from n3 s3 ra sa z show ?thesis by simp
qed

text \<open>
  The claim as it was stated fails once an admission is 60 seconds old: one call is
  admitted at time 0, and the status read at 60000 counts no request. And with
  \<open>requestsPerMinute = 0\<close> the window count has reached the limit while the window is
  empty: there is no oldest timestamp, and \<open>nextAvailableSlot\<close> is 0.
\<close>

theorem window_count_expired_counterexample:
  "fst (acquire_all ex_limiter ''openai'' [0]) = [PromiseResolved]
   \<and> get_or_empty (map_of (queues (snd (acquire_all ex_limiter ''openai'' [0]))) ''openai'') = []
   \<and> requestsInWindow (fst (getStatus (snd (acquire_all ex_limiter ''openai'' [0])) 60000 ''openai'')) = 0
   \<and> get_or_empty (requestTimestamps ex_limiter_zero ''openai'') = []
   \<and> requestsPerMinute (the (configs ex_limiter_zero ''openai'')) = 0
   \<and> requestsInWindow (fst (getStatus ex_limiter_zero 0 ''openai'')) = 0
   \<and> nextAvailableSlot (fst (getStatus ex_limiter_zero 0 ''openai'')) = 0"
  by (simp add: status_eval)

text \<open>
  Claim C5, as amended. \<open>dispose\<close> stops every running timer and rejects every queued
  waiter of every provider with the error \<open>Rate limiter disposed for provider p\<close>,
  leaving every queue empty, and no timer fires afterwards. It sets no flag: an
  \<open>acquire\<close> after \<open>dispose\<close> is decided as before, so it succeeds for a provider without
  configuration and while the window is under capacity.
\<close>

theorem dispose_rejects_waiters:
  "timers (dispose rl) = []
   \<and> (\<forall>(p, queue)\<in>set (queues rl). \<forall>item\<in>set queue.
         (waiter item, Rejected (''Rate limiter disposed for provider '' @ p))
           \<in> set (settled (dispose rl)))
   \<and> (\<forall>p. get_or_empty (map_of (queues (dispose rl)) p) = [])
   \<and> (\<forall>now p. tick (dispose rl) now p = dispose rl)
   \<and> (\<forall>now p. configs rl p = None \<longrightarrow> fst (acquire (dispose rl) now p) = PromiseResolved)
   \<and> (\<forall>now p cfg. configs rl p = Some cfg
          \<and> int (length (window rl now p)) < requestsPerMinute cfg \<longrightarrow>
        fst (acquire (dispose rl) now p) = PromiseResolved)"
proof (intro conjI allI impI)
  show "timers (dispose rl) = []" by (simp add: dispose_fields)
  show "\<forall>(p, queue)\<in>set (queues rl). \<forall>item\<in>set queue.
         (waiter item, Rejected (''Rate limiter disposed for provider '' @ p))
           \<in> set (settled (dispose rl))"
    using dispose_rejects by blast
  show "get_or_empty (map_of (queues (dispose rl)) p) = []" for p
    by (rule dispose_queue_empty)
  show "tick (dispose rl) now p = dispose rl" for now p by (rule tick_dispose)
  show "fst (acquire (dispose rl) now p) = PromiseResolved" if "configs rl p = None" for now p
    using that by (simp add: acquire_unconfigured dispose_fields)
  show "fst (acquire (dispose rl) now p) = PromiseResolved"
    if "configs rl p = Some cfg \<and> int (length (window rl now p)) < requestsPerMinute cfg"
    for now p cfg
    using that acquire_admit(1)[of "dispose rl" p cfg now] by (simp add: dispose_fields)
qed

theorem dispose_rejects_waiters_witness:
  "fst (acquire_all ex_limiter ''openai'' [0, 1, 2, 3])
     = [PromiseResolved, PromiseResolved, PromiseResolved, PromisePending 0]
   \<and> timers ex_limiter_queued = [''openai'']
   \<and> timers (dispose ex_limiter_queued) = []
   \<and> (0, Rejected ''Rate limiter disposed for provider openai'')
        \<in> set (settled (dispose ex_limiter_queued))
   \<and> get_or_empty (map_of (queues (dispose ex_limiter_queued)) ''openai'') = []
   \<and> fst (acquire (dispose ex_limiter_queued) 4 ''gemini'') = PromiseResolved
   \<and> fst (acquire (dispose ex_limiter_queued) 60003 ''openai'') = PromiseResolved"
proof -
  let ?cfg = "\<lparr> cfg_provider = ''openai'', requestsPerMinute = 3, maxQueueSize = 5 \<rparr>"
  have a: "fst (acquire_all ex_limiter ''openai'' [0, 1, 2, 3])
     = [PromiseResolved, PromiseResolved, PromiseResolved, PromisePending 0]"
    by (simp add: limiter_eval)
  have q: "(''openai'', [\<lparr> waiter = 0, enqueuedAt = 3 \<rparr>]) \<in> set (queues ex_limiter_queued)"
    by (simp add: ex_limiter_queued_eq)
  have u: "configs ex_limiter_queued ''gemini'' = None"
    by (simp add: ex_limiter_queued_eq limiter_eval)
  have c: "configs ex_limiter_queued ''openai'' = Some ?cfg
           \<and> int (length (window ex_limiter_queued 60003 ''openai'')) < requestsPerMinute ?cfg"
    by (simp add: ex_limiter_queued_eq limiter_eval)
  note inst = dispose_rejects_waiters[of ex_limiter_queued]
  from inst q
  have "timers (dispose ex_limiter_queued) = []
        \<and> (0, Rejected ''Rate limiter disposed for provider openai'')
             \<in> set (settled (dispose ex_limiter_queued))"
    by fastforce
  moreover from inst
  have "get_or_empty (map_of (queues (dispose ex_limiter_queued)) ''openai'') = []" by blast
  moreover from inst u
  have "fst (acquire (dispose ex_limiter_queued) 4 ''gemini'') = PromiseResolved" by blast
  moreover from inst c
  have "fst (acquire (dispose ex_limiter_queued) 60003 ''openai'') = PromiseResolved" by blast
  ultimately show ?thesis using a by (simp add: ex_limiter_queued_eq)
qed

text \<open>
  The claim as it was stated fails: after \<open>dispose\<close> has rejected the queued waiter, an
  \<open>acquire\<close> on the same provider is admitted once the window has slid, and one on a
  provider without configuration is admitted at once.
\<close>

theorem acquire_after_dispose_counterexample:
  "settled (dispose ex_limiter_queued) = [(0, Rejected ''Rate limiter disposed for provider openai'')]
   \<and> fst (acquire (dispose ex_limiter_queued) 60003 ''openai'') = PromiseResolved
   \<and> fst (acquire (dispose ex_limiter_queued) 4 ''gemini'') = PromiseResolved"
  by (simp add: ex_limiter_queued_eq limiter_eval)

section \<open>Properties of the token refresh\<close>

lemmas auth_eval =
  ex_token_def ex_store_def ex_oauth_config_def ex_plain_config_def ex_post_ok_def
  ex_post_fail_def refreshToken_def getProviderConfig_def getToken_def saveToken_def
  deleteToken_def persist_def refresh_failed_def refreshRequest_def missing_def or_else_def
  get_or_empty_def Let_def

lemma refresh_failed_deletes:
  "tokens (snd (refresh_failed store p msg delete_error)) p = None
   \<and> (\<exists>e. fst (refresh_failed store p msg delete_error) = Inl e)
   \<and> (delete_error = None \<longrightarrow>
        fst (refresh_failed store p msg delete_error) =
          Inl (''Failed to refresh token for '' @ p @ '': '' @ msg @ ''. Please re-authenticate.''))"
  by (simp add: refresh_failed_def deleteToken_def persist_def split: option.splits)

text \<open>
  Claim C8, as amended. Given a stored token set with a refresh token: when the provider
  is configured, enabled and has a token endpoint and a client id, a successful answer of
  the token endpoint (and a successful write of the store) makes \<open>refreshToken\<close> store and
  return the new access token, the new refresh token if one was returned (the old one
  otherwise) and \<open>expiresAt = now + expires_in * 1000\<close>; a failure of the request or of the
  write deletes the stored entry and surfaces an error. When the provider is not
  configured, disabled, or lacks the token endpoint or the client id, \<open>refreshToken\<close>
  fails before any request and leaves the store as it was.
\<close>

theorem refreshToken_outcomes:
  assumes "getToken store p = Some cur" and "\<not> missing (ts_refreshToken cur)"
  shows "(providerConfigs p = Some config \<and> enabled config \<and> \<not> missing (tokenEndpoint config)
            \<and> \<not> missing (clientId config)
            \<and> post (get_or_empty (tokenEndpoint config)) (refreshRequest config cur) = Inr resp
            \<and> save_error = None \<longrightarrow>
          fst (refreshToken providerConfigs post now save_error delete_error store p) =
            Inr \<lparr> ts_accessToken = resp_access_token resp,
                  ts_refreshToken =
                    (if missing (resp_refresh_token resp) then ts_refreshToken cur
                     else resp_refresh_token resp),
                  ts_expiresAt = now + resp_expires_in resp * 1000,
                  ts_provider = p \<rparr>
          \<and> tokens (snd (refreshToken providerConfigs post now save_error delete_error store p)) p =
            Some \<lparr> ts_accessToken = resp_access_token resp,
                   ts_refreshToken =
                     (if missing (resp_refresh_token resp) then ts_refreshToken cur
                      else resp_refresh_token resp),
                   ts_expiresAt = now + resp_expires_in resp * 1000,
                   ts_provider = p \<rparr>)
       \<and> (providerConfigs p = Some config \<and> enabled config \<and> \<not> missing (tokenEndpoint config)
            \<and> \<not> missing (clientId config)
            \<and> ((\<exists>msg. post (get_or_empty (tokenEndpoint config)) (refreshRequest config cur) = Inl msg)
                 \<or> save_error \<noteq> None) \<longrightarrow>
          (\<exists>e. fst (refreshToken providerConfigs post now save_error delete_error store p) = Inl e)
          \<and> tokens (snd (refreshToken providerConfigs post now save_error delete_error store p)) p = None)
       \<and> (providerConfigs p = None
            \<or> (providerConfigs p = Some config
                 \<and> (\<not> enabled config \<or> missing (tokenEndpoint config) \<or> missing (clientId config))) \<longrightarrow>
          (\<exists>e. fst (refreshToken providerConfigs post now save_error delete_error store p) = Inl e)
          \<and> snd (refreshToken providerConfigs post now save_error delete_error store p) = store)"
proof (intro conjI impI)
  assume h: "providerConfigs p = Some config \<and> enabled config \<and> \<not> missing (tokenEndpoint config)
            \<and> \<not> missing (clientId config)
            \<and> post (get_or_empty (tokenEndpoint config)) (refreshRequest config cur) = Inr resp
            \<and> save_error = None"
  let ?ts = "\<lparr> ts_accessToken = resp_access_token resp,
                  ts_refreshToken =
                    (if missing (resp_refresh_token resp) then ts_refreshToken cur
                     else resp_refresh_token resp),
                  ts_expiresAt = now + resp_expires_in resp * 1000,
                  ts_provider = p \<rparr>"
  have oe: "or_else (resp_refresh_token resp) (ts_refreshToken cur) =
              (if missing (resp_refresh_token resp) then ts_refreshToken cur
               else resp_refresh_token resp)"
    by (simp add: or_else_def missing_def split: option.splits)
  have r: "refreshToken providerConfigs post now save_error delete_error store p =
             (Inr ?ts, store\<lparr> tokens := (tokens store)(p \<mapsto> ?ts),
                              persisted := (tokens store)(p \<mapsto> ?ts) \<rparr>)"
    using h assms
    by (simp add: refreshToken_def getProviderConfig_def saveToken_def persist_def oe Let_def)
  show "fst (refreshToken providerConfigs post now save_error delete_error store p) = Inr ?ts"
    by (simp add: r)
  show "tokens (snd (refreshToken providerConfigs post now save_error delete_error store p)) p = Some ?ts"
    by (simp add: r)
next
  assume h: "providerConfigs p = Some config \<and> enabled config \<and> \<not> missing (tokenEndpoint config)
            \<and> \<not> missing (clientId config)
            \<and> ((\<exists>msg. post (get_or_empty (tokenEndpoint config)) (refreshRequest config cur) = Inl msg)
                 \<or> save_error \<noteq> None)"
  have "\<exists>st msg. refreshToken providerConfigs post now save_error delete_error store p =
           refresh_failed st p msg delete_error"
  proof (cases "post (get_or_empty (tokenEndpoint config)) (refreshRequest config cur)")
    case (Inl msg)
    with h assms show ?thesis
      by (auto simp: refreshToken_def getProviderConfig_def)
  next
    case (Inr resp)
    with h obtain e where "save_error = Some e" by auto
    with Inr h assms show ?thesis
      by (auto simp: refreshToken_def getProviderConfig_def saveToken_def persist_def Let_def)
  qed
  then obtain st msg where
    r: "refreshToken providerConfigs post now save_error delete_error store p =
           refresh_failed st p msg delete_error" by blast
  from refresh_failed_deletes[of st p msg delete_error]
  show "\<exists>e. fst (refreshToken providerConfigs post now save_error delete_error store p) = Inl e"
    by (simp add: r)
  from refresh_failed_deletes[of st p msg delete_error]
  show "tokens (snd (refreshToken providerConfigs post now save_error delete_error store p)) p = None"
    by (simp add: r)
next
  assume h: "providerConfigs p = None
            \<or> (providerConfigs p = Some config
                 \<and> (\<not> enabled config \<or> missing (tokenEndpoint config) \<or> missing (clientId config)))"
  then have "\<exists>e. refreshToken providerConfigs post now save_error delete_error store p = (Inl e, store)"
    using assms by (auto simp: refreshToken_def getProviderConfig_def)
  then show "\<exists>e. fst (refreshToken providerConfigs post now save_error delete_error store p) = Inl e"
    and "snd (refreshToken providerConfigs post now save_error delete_error store p) = store"
    by auto
qed

theorem refreshToken_outcomes_witness:
  "fst (refreshToken [''openai'' \<mapsto> ex_oauth_config] ex_post_ok 5000 None None ex_store ''openai'')
     = Inr \<lparr> ts_accessToken = ''new-access'', ts_refreshToken = Some ''old-refresh'',
             ts_expiresAt = 3605000, ts_provider = ''openai'' \<rparr>
   \<and> tokens (snd (refreshToken [''openai'' \<mapsto> ex_oauth_config] ex_post_fail 5000 None None
                    ex_store ''openai'')) ''openai'' = None
   \<and> snd (refreshToken [''openai'' \<mapsto> ex_plain_config] ex_post_ok 5000 None None ex_store ''openai'')
       = ex_store"
proof -
  have a: "getToken ex_store ''openai'' = Some ex_token" by (simp add: auth_eval)
  have b: "\<not> missing (ts_refreshToken ex_token)" by (simp add: auth_eval)
  have c: "[''openai'' \<mapsto> ex_oauth_config] ''openai'' = Some ex_oauth_config
            \<and> enabled ex_oauth_config \<and> \<not> missing (tokenEndpoint ex_oauth_config)
            \<and> \<not> missing (clientId ex_oauth_config)"
    by (simp add: auth_eval)
  have ok: "ex_post_ok (get_or_empty (tokenEndpoint ex_oauth_config))
              (refreshRequest ex_oauth_config ex_token)
            = Inr \<lparr> resp_access_token = ''new-access'', resp_refresh_token = None,
                    resp_expires_in = 3600 \<rparr>"
    by (simp add: ex_post_ok_def)
  have bad: "\<exists>msg. ex_post_fail (get_or_empty (tokenEndpoint ex_oauth_config))
              (refreshRequest ex_oauth_config ex_token) = Inl msg"
    by (simp add: ex_post_fail_def)
  have plain: "[''openai'' \<mapsto> ex_plain_config] ''openai'' = Some ex_plain_config
            \<and> missing (tokenEndpoint ex_plain_config)"
    by (simp add: auth_eval)
  from refreshToken_outcomes[OF a b, of "[''openai'' \<mapsto> ex_oauth_config]" ex_oauth_config ex_post_ok
      "\<lparr> resp_access_token = ''new-access'', resp_refresh_token = None, resp_expires_in = 3600 \<rparr>"
      None 5000 None] c ok
  have "fst (refreshToken [''openai'' \<mapsto> ex_oauth_config] ex_post_ok 5000 None None ex_store ''openai'')
     = Inr \<lparr> ts_accessToken = ''new-access'', ts_refreshToken = Some ''old-refresh'',
             ts_expiresAt = 3605000, ts_provider = ''openai'' \<rparr>"
    by (simp add: missing_def ex_token_def)
  moreover
  from refreshToken_outcomes[OF a b, of "[''openai'' \<mapsto> ex_oauth_config]" ex_oauth_config ex_post_fail
      _ None 5000 None] c bad
  have "tokens (snd (refreshToken [''openai'' \<mapsto> ex_oauth_config] ex_post_fail 5000 None None
                    ex_store ''openai'')) ''openai'' = None"
    by simp
  moreover
  from refreshToken_outcomes[OF a b, of "[''openai'' \<mapsto> ex_plain_config]" ex_plain_config ex_post_ok
      _ None 5000 None] plain
  have "snd (refreshToken [''openai'' \<mapsto> ex_plain_config] ex_post_ok 5000 None None ex_store ''openai'')
          = ex_store"
    by simp
  ultimately show ?thesis by simp
qed

text \<open>
  The claim as it was stated fails for a provider without token endpoint: the refresh
  fails and the stored token is still there.
\<close>

theorem refreshToken_keeps_token_counterexample:
  "getToken ex_store ''openai'' = Some ex_token
   \<and> ts_refreshToken ex_token = Some ''old-refresh''
   \<and> fst (refreshToken [''openai'' \<mapsto> ex_plain_config] ex_post_ok 5000 None None ex_store ''openai'')
       = Inl ''Provider openai missing token endpoint or client ID''
   \<and> tokens (snd (refreshToken [''openai'' \<mapsto> ex_plain_config] ex_post_ok 5000 None None
                    ex_store ''openai'')) ''openai'' = Some ex_token"
  by (simp add: auth_eval)

section \<open>Properties of the dispatch loop\<close>

lemmas dispatch_eval =
  ex_request_def ex_chunk_def ex_response_def ex_adapter_ok_def ex_env_def ex_token_def
  stream_frames_def stream_attempt_def await_acquire_def
  buildProviderRequest_def normalizeToProviderError_def generateCompletionId_def
  toOpenAIChunk_def handleCompletionStream_def handleCompletion_def completion_attempt_def
  notInitialized_def createProviderError_def

lemmas gateway_eval =
  ex_plain_config_def ex_axios_def startGateway_providers_def OpenAIProvider_def GeminiProvider_def BaseProvider_def
  provider_chatCompletion_def provider_chatCompletionStream_def stream_error_def
  normalizeError_def or_else_def

lemma ex_limiter_full_eq:
  "ex_limiter_full =
     \<lparr> configs = [''openai'' \<mapsto> \<lparr> cfg_provider = ''openai'', requestsPerMinute = 1, maxQueueSize = 1 \<rparr>],
       requestTimestamps = [''openai'' \<mapsto> [0]],
       queues = [(''openai'', [\<lparr> waiter = 0, enqueuedAt = 1 \<rparr>])], timers = [''openai''],
       settled = [], promises = 1 \<rparr>"
  by (simp add: ex_limiter_full_def limiter_eval)

lemma new_limiter_acquire [simp]: "fst (acquire (RateLimiter_new []) now p) = PromiseResolved"
  by (simp add: acquire_def RateLimiter_new_def)

text \<open>
  The adapters of the gateway raise a retryable error only when the POST is rejected,
  which is before the first chunk: an error raised while the body is read has no status
  and is normalised to a kind that is not retryable.
\<close>

lemma provider_stream_error_after_chunk:
  assumes "provider_chatCompletionStream providerName up = (chunks, Some e)" and "chunks \<noteq> []"
  shows "\<not> retryable (normalizeToProviderError e p)"
proof (cases up)
  case (PostRejected error)
  with assms show ?thesis by (simp add: provider_chatCompletionStream_def)
next
  case (BodyEnded cs)
  with assms show ?thesis by (simp add: provider_chatCompletionStream_def)
next
  case (BodyFailed cs msg)
  with assms have "e = ProviderErr (normalizeError providerName (stream_error msg))"
    by (simp add: provider_chatCompletionStream_def)
  then show ?thesis
    by (simp add: normalizeToProviderError_def normalizeError_def stream_error_def)
qed

lemma startGateway_providers_adapter:
  assumes "startGateway_providers config_providers backend p = Some adapter"
  shows "\<exists>providerName. adapter = BaseProvider providerName (backend p)"
  using assms
  by (auto simp: startGateway_providers_def OpenAIProvider_def GeminiProvider_def
      split: option.splits if_splits)

lemma startGateway_no_retry_after_chunk:
  assumes "adapters env = startGateway_providers config_providers backend"
  shows "no_retry_after_chunk env"
  unfolding no_retry_after_chunk_def
proof (intro allI impI)
  fix p adapter n request chunks e
  assume h: "adapters env p = Some adapter
               \<and> chatCompletionStream adapter n request = (chunks, Some e) \<and> chunks \<noteq> []"
  with assms have "startGateway_providers config_providers backend p = Some adapter" by simp
  from startGateway_providers_adapter[OF this]
  obtain providerName where a: "adapter = BaseProvider providerName (backend p)" by blast
  from h have "provider_chatCompletionStream providerName (post_stream (backend p) n request)
                 = (chunks, Some e)"
    unfolding a by (simp add: BaseProvider_def)
  from provider_stream_error_after_chunk[OF this] h
  show "\<not> retryable (normalizeToProviderError e p)" by blast
qed

text \<open>
  One attempt yields chunk frames that all carry the stream id drawn in that attempt,
  followed by the end marker exactly when the attempt returns.
\<close>

lemma stream_attempt_shape:
  assumes "stream_attempt env request n sel = (ys, r)"
  shows "\<exists>chunks. ys = map ChunkFrame chunks @ (if r = None then [DoneFrame] else [])
           \<and> (\<forall>c\<in>set chunks. chunk_id c = generateCompletionId (uuid_at env n))
           \<and> (no_retry_after_chunk env
                \<and> (\<exists>e. r = Some e \<and> retryable (normalizeToProviderError e (provider sel)))
              \<longrightarrow> chunks = [])"
proof (cases "await_acquire env n (provider sel)")
  case (Some e)
  show ?thesis using assms by (auto simp: stream_attempt_def Some)
next
  case None
  note acq = None
  show ?thesis
  proof (cases "getValidToken env n (provider sel)")
    case (Inl e)
    show ?thesis using assms by (auto simp: stream_attempt_def acq Inl)
  next
    case (Inr token)
    note tok = Inr
    show ?thesis
    proof (cases "adapters env (provider sel)")
      case None
      show ?thesis using assms by (auto simp: stream_attempt_def acq tok None)
    next
      case (Some adapter)
      obtain chunks raised where
        st: "chatCompletionStream adapter n (buildProviderRequest sel request True token) = (chunks, raised)"
        by (cases "chatCompletionStream adapter n (buildProviderRequest sel request True token)") auto
      let ?cs = "map (\<lambda>(chunk, now). toOpenAIChunk chunk (req_model request)
                      (generateCompletionId (uuid_at env n)) now) chunks"
      have ys: "ys = map ChunkFrame ?cs @ (if r = None then [DoneFrame] else [])"
        and r: "r = raised"
        using assms
        by (auto simp: stream_attempt_def acq tok Some st Let_def case_prod_unfold comp_def
            split: option.splits)
      have ids: "\<forall>c\<in>set ?cs. chunk_id c = generateCompletionId (uuid_at env n)"
        by (auto simp: toOpenAIChunk_def Let_def)
      have emp: "no_retry_after_chunk env
                   \<and> (\<exists>e. r = Some e \<and> retryable (normalizeToProviderError e (provider sel)))
                 \<longrightarrow> ?cs = []"
      proof (intro impI)
        assume h: "no_retry_after_chunk env
                   \<and> (\<exists>e. r = Some e \<and> retryable (normalizeToProviderError e (provider sel)))"
        then obtain e where e: "raised = Some e"
          "retryable (normalizeToProviderError e (provider sel))" using r by auto
        have "chunks = []"
        proof (rule ccontr)
          assume "chunks \<noteq> []"
          with st e(1) Some h have "\<not> retryable (normalizeToProviderError e (provider sel))"
            unfolding no_retry_after_chunk_def by blast
          with e(2) show False by simp
        qed
        then show "?cs = []" by simp
      qed
      from ys ids emp show ?thesis by blast
    qed
  qed
qed

text \<open>
  A loop that returns has yielded chunk frames and then the end marker; every chunk
  carries the id of one of the attempts, and a single one when no adapter raises a
  retryable error after a chunk.
\<close>

lemma stream_loop_frames:
  "stream_loop env request maxRetries attempts sel lastError router tried out
     = (frames, None, router', tried')
   \<Longrightarrow> \<exists>chunks. frames = out @ map ChunkFrame chunks @ [DoneFrame]
        \<and> (\<forall>c\<in>set chunks. \<exists>n. attempts < n \<and> n \<le> maxRetries
               \<and> chunk_id c = generateCompletionId (uuid_at env n))
        \<and> (no_retry_after_chunk env \<longrightarrow>
             (\<exists>n. attempts < n \<and> n \<le> maxRetries
                \<and> (\<forall>c\<in>set chunks. chunk_id c = generateCompletionId (uuid_at env n))))"
proof (induction env request maxRetries attempts sel lastError router tried out
        arbitrary: frames router' tried' rule: stream_loop.induct)
  case (1 env request maxRetries attempts selected lastError router tried out)
  note eq = "1.prems"
  have lt: "attempts < maxRetries"
  proof (rule ccontr)
    assume "\<not> attempts < maxRetries"
    with eq show False by (subst (asm) stream_loop.simps) simp
  qed
  obtain yielded r where att: "stream_attempt env request (Suc attempts) selected = (yielded, r)"
    by (cases "stream_attempt env request (Suc attempts) selected") auto
  from stream_attempt_shape[OF att] obtain cs where
    ys: "yielded = map ChunkFrame cs @ (if r = None then [DoneFrame] else [])"
    and ids: "\<forall>c\<in>set cs. chunk_id c = generateCompletionId (uuid_at env (Suc attempts))"
    and emp: "no_retry_after_chunk env
                \<and> (\<exists>e. r = Some e \<and> retryable (normalizeToProviderError e (provider selected)))
              \<longrightarrow> cs = []"
    by blast
  show ?case
  proof (cases r)
    case None
    with eq lt att have "frames = out @ yielded"
      by (subst (asm) stream_loop.simps) simp
    with ys None have fr: "frames = out @ map ChunkFrame cs @ [DoneFrame]" by simp
    have n: "attempts < Suc attempts \<and> Suc attempts \<le> maxRetries" using lt by simp
    from fr ids n show ?thesis by blast
  next
    case (Some error)
    let ?pe = "normalizeToProviderError error (provider selected)"
    let ?g = "getNextProvider router (failed_at env (Suc attempts)) (failed_at env (Suc attempts))
                (req_model request) (provider selected)"
    have retry: "retryable ?pe \<and> Suc attempts < maxRetries"
    proof (rule ccontr)
      assume "\<not> (retryable ?pe \<and> Suc attempts < maxRetries)"
      with eq lt att Some show False
        by (subst (asm) stream_loop.simps) (simp add: Let_def)
    qed
    obtain res router1 where g: "?g = (res, router1)" by (cases ?g) auto
    have "\<exists>next. res = Inr (Some next)"
    proof (rule ccontr)
      assume a: "\<not> (\<exists>next. res = Inr (Some next))"
      show False
      proof (cases res)
        case (Inl e)
        with eq lt att Some retry g show False
          by (subst (asm) stream_loop.simps) (simp add: Let_def)
      next
        case (Inr sel')
        with a have "sel' = None" by (cases sel') auto
        with Inr eq lt att Some retry g show False
          by (subst (asm) stream_loop.simps) (simp add: Let_def)
      qed
    qed
    then obtain "next" where nx: "res = Inr (Some next)" by blast
    have rec: "stream_loop env request maxRetries (Suc attempts) next (Some ?pe) router1
                 (tried @ [provider selected]) (out @ yielded) = (frames, None, router', tried')"
      using eq lt att Some retry g nx
      by (subst (asm) stream_loop.simps) (simp add: Let_def)
    from "1.IH"[OF lt att[symmetric] Some refl retry g[symmetric] nx refl rec]
    obtain cs2 where
      fr2: "frames = (out @ yielded) @ map ChunkFrame cs2 @ [DoneFrame]"
      and ids2: "\<forall>c\<in>set cs2. \<exists>n. Suc attempts < n \<and> n \<le> maxRetries
                   \<and> chunk_id c = generateCompletionId (uuid_at env n)"
      and one2: "no_retry_after_chunk env \<longrightarrow>
                   (\<exists>n. Suc attempts < n \<and> n \<le> maxRetries
                      \<and> (\<forall>c\<in>set cs2. chunk_id c = generateCompletionId (uuid_at env n)))"
      by blast
    from ys Some have y: "yielded = map ChunkFrame cs" by simp
    have fr: "frames = out @ map ChunkFrame (cs @ cs2) @ [DoneFrame]"
      using fr2 y by simp
    have idsall: "\<forall>c\<in>set (cs @ cs2). \<exists>n. attempts < n \<and> n \<le> maxRetries
                   \<and> chunk_id c = generateCompletionId (uuid_at env n)"
    proof
      fix c assume "c \<in> set (cs @ cs2)"
      then consider "c \<in> set cs" | "c \<in> set cs2" by auto
      then show "\<exists>n. attempts < n \<and> n \<le> maxRetries
                   \<and> chunk_id c = generateCompletionId (uuid_at env n)"
      proof cases
        case 1
        with ids lt show ?thesis by (intro exI[of _ "Suc attempts"]) simp
      next
        case 2
        with ids2 obtain n where "Suc attempts < n" "n \<le> maxRetries"
          "chunk_id c = generateCompletionId (uuid_at env n)" by blast
        then show ?thesis by (intro exI[of _ n]) simp
      qed
    qed
    have one: "no_retry_after_chunk env \<longrightarrow>
                 (\<exists>n. attempts < n \<and> n \<le> maxRetries
                    \<and> (\<forall>c\<in>set (cs @ cs2). chunk_id c = generateCompletionId (uuid_at env n)))"
    proof
      assume f: "no_retry_after_chunk env"
      with emp Some retry have "cs = []" by simp
      moreover from one2 f obtain n where "Suc attempts < n" "n \<le> maxRetries"
        "\<forall>c\<in>set cs2. chunk_id c = generateCompletionId (uuid_at env n)" by blast
      ultimately show "\<exists>n. attempts < n \<and> n \<le> maxRetries
                    \<and> (\<forall>c\<in>set (cs @ cs2). chunk_id c = generateCompletionId (uuid_at env n))"
        by (intro exI[of _ n]) simp
    qed
    from fr idsall one show ?thesis by blast
  qed
qed

text \<open>
  Claim C9. When a streaming completion returns normally, every frame before the last is
  \<open>data: \<close>, the JSON of a chunk and two newlines, and the last frame is \<open>data: [DONE]\<close>
  and two newlines, whatever the adapters are. With the provider map that \<open>startGateway\<close>
  builds (\<open>OpenAIProvider\<close> and \<open>GeminiProvider\<close>, over any upstream behaviour), the \<open>id\<close>
  of every chunk is one and the same stream id: the one generated in the attempt that
  produced the stream.
\<close>

theorem sse_framing:
  assumes "handleCompletionStream stringify env maxRetries router request = (out, None)"
  shows "\<exists>chunks.
           out = map (\<lambda>chunk. ''data: '' @ stringify chunk @ [CHR 0x0A, CHR 0x0A]) chunks
                   @ [''data: [DONE]'' @ [CHR 0x0A, CHR 0x0A]]
         \<and> (adapters env = startGateway_providers config_providers backend \<longrightarrow>
              (\<exists>n. 0 < n \<and> n \<le> maxRetries
                 \<and> (\<forall>c\<in>set chunks. chunk_id c = generateCompletionId (uuid_at env n))))"
proof -
  obtain frames router' tried where
    sf: "stream_frames env maxRetries router request = (frames, None, router', tried)"
    and out: "out = map (formatFrame stringify) frames"
    using assms
    by (cases "stream_frames env maxRetries router request")
       (auto simp: handleCompletionStream_def)
  from sf obtain selected router1 where
    loop: "stream_loop env request maxRetries 0 selected None router1 [] []
             = (frames, None, router', tried)"
    by (auto simp: stream_frames_def split: sum.splits prod.splits option.splits)
  from stream_loop_frames[OF loop] obtain chunks where
    fr: "frames = map ChunkFrame chunks @ [DoneFrame]"
    and one: "no_retry_after_chunk env \<longrightarrow>
              (\<exists>n. 0 < n \<and> n \<le> maxRetries
                 \<and> (\<forall>c\<in>set chunks. chunk_id c = generateCompletionId (uuid_at env n)))"
    by auto
  have frm: "out = map (\<lambda>chunk. ''data: '' @ stringify chunk @ [CHR 0x0A, CHR 0x0A]) chunks
                   @ [''data: [DONE]'' @ [CHR 0x0A, CHR 0x0A]]"
    unfolding out fr by (simp add: formatSSE_def formatSSEDone_def comp_def)
  have "adapters env = startGateway_providers config_providers backend \<longrightarrow>
              (\<exists>n. 0 < n \<and> n \<le> maxRetries
                 \<and> (\<forall>c\<in>set chunks. chunk_id c = generateCompletionId (uuid_at env n)))"
    using one startGateway_no_retry_after_chunk[of env config_providers backend] by blast
  with frm show ?thesis by blast
qed

text \<open>
  The theorem at the gateway where \<open>openai\<close> answers 503 and \<open>gemini\<close> streams two
  chunks: three frames, and both chunks carry the id drawn in the second attempt.
\<close>

theorem sse_framing_witness:
  "fst (handleCompletionStream ex_stringify ex_gateway_env 3 ex_router ex_request)
     = [''data: {id:chatcmpl-b}'' @ [CHR 0x0A, CHR 0x0A],
        ''data: {id:chatcmpl-b}'' @ [CHR 0x0A, CHR 0x0A],
        ''data: [DONE]'' @ [CHR 0x0A, CHR 0x0A]]
   \<and> snd (handleCompletionStream ex_stringify ex_gateway_env 3 ex_router ex_request) = None
   \<and> (\<exists>chunks n.
        fst (handleCompletionStream ex_stringify ex_gateway_env 3 ex_router ex_request)
          = map (\<lambda>chunk. ''data: '' @ ex_stringify chunk @ [CHR 0x0A, CHR 0x0A]) chunks
              @ [''data: [DONE]'' @ [CHR 0x0A, CHR 0x0A]]
        \<and> 0 < n \<and> n \<le> 3
        \<and> list_all (\<lambda>c. chunk_id c = generateCompletionId (uuid_at ex_gateway_env n)) chunks)"
proof -
  have run: "handleCompletionStream ex_stringify ex_gateway_env 3 ex_router ex_request
          = ([''data: {id:chatcmpl-b}'' @ [CHR 0x0A, CHR 0x0A],
              ''data: {id:chatcmpl-b}'' @ [CHR 0x0A, CHR 0x0A],
              ''data: [DONE]'' @ [CHR 0x0A, CHR 0x0A]], None)"
    by (simp add: ex_gateway_env_def ex_providers_config_def ex_backend_def gateway_eval
        dispatch_eval router_eval stream_loop.simps formatSSE_def formatSSEDone_def
        ex_stringify_def)
  have reg: "adapters ex_gateway_env = startGateway_providers ex_providers_config ex_backend"
    by (simp add: ex_gateway_env_def ex_env_def)
  from sse_framing[OF run, of ex_providers_config ex_backend] reg
  have "\<exists>chunks n.
          [''data: {id:chatcmpl-b}'' @ [CHR 0x0A, CHR 0x0A],
           ''data: {id:chatcmpl-b}'' @ [CHR 0x0A, CHR 0x0A],
           ''data: [DONE]'' @ [CHR 0x0A, CHR 0x0A]]
          = map (\<lambda>chunk. ''data: '' @ ex_stringify chunk @ [CHR 0x0A, CHR 0x0A]) chunks
              @ [''data: [DONE]'' @ [CHR 0x0A, CHR 0x0A]]
        \<and> 0 < n \<and> n \<le> 3
        \<and> list_all (\<lambda>c. chunk_id c = generateCompletionId (uuid_at ex_gateway_env n)) chunks"
    unfolding list_all_iff by blast
  with run show ?thesis by simp
qed

text \<open>
  When the body of \<open>openai\<close> breaks off after its first chunk, the error has no status, it
  is not retryable, and no other provider is attempted: the stream ends with that error,
  after the one chunk and without the end marker.
\<close>

lemma stream_body_failure_not_retried:
  "stream_frames
     (ex_env (RateLimiter_new [])
        [''openai'' \<mapsto> OpenAIProvider
           \<lparr> post_completion = (\<lambda>n r. Inl (ex_axios 503)),
             post_stream = (\<lambda>n r. BodyFailed [(ex_chunk ''Hel'', 1000)] (Some ''aborted'')) \<rparr>,
         ''gemini'' \<mapsto> GeminiProvider (ex_backend ''gemini'')])
     3 ex_router ex_request
   = ([ChunkFrame (toOpenAIChunk (ex_chunk ''Hel'') ''best-model'' ''chatcmpl-a'' 1000)],
      Some (ProviderErr \<lparr> err_provider = ''openai'', statusCode = None, message = ''aborted'',
                          err_type = unknown, retryable = False \<rparr>),
      clearExpiredFailures ex_router 5, [''openai''])"
  by (simp add: ex_backend_def gateway_eval dispatch_eval router_eval stream_loop.simps)

lemma await_acquire_queue_full:
  assumes "configs rl p = Some cfg"
      and "requestsPerMinute cfg \<le> int (length (window rl now p))"
      and "maxQueueSize cfg \<le> int (length (get_or_empty (map_of (queues rl) p)))"
      and "limiter_at env n = rl" and "clock_at env n = now"
  shows "await_acquire env n p =
           Some (JsError (''Rate limit exceeded: queue full for provider '' @ p))"
  using acquire_reject[OF assms(1-3)] assms(4,5) by (simp add: await_acquire_def)

text \<open>
  Claim C1, as amended. When the pruned window of a configured provider holds at least
  \<open>requestsPerMinute\<close> timestamps and its queue at least \<open>maxQueueSize\<close> waiters,
  \<open>acquire\<close> fails with \<open>Rate limit exceeded: queue full\<close>. When this happens in the first
  attempt of a request, the dispatcher (streaming or not) normalises the error to a
  provider error that is not retryable, attempts no other provider, leaves the failure
  map untouched and throws it. Its kind is \<open>unknown\<close>, not \<open>rate_limit\<close>: the error handler
  answers with status 500 and type \<open>server_error\<close>.
\<close>

theorem queue_full_error_classification:
  assumes "configs rl p = Some cfg"
      and "requestsPerMinute cfg \<le> int (length (window rl now p))"
      and "maxQueueSize cfg \<le> int (length (get_or_empty (map_of (queues rl) p)))"
  shows "fst (acquire rl now p) =
           PromiseRejected (''Rate limit exceeded: queue full for provider '' @ p)
       \<and> (attempts < maxRetries \<and> provider selected = p
            \<and> limiter_at env (Suc attempts) = rl \<and> clock_at env (Suc attempts) = now \<longrightarrow>
          completion_loop env request maxRetries attempts selected lastError router tried =
            (Inl (ProviderErr (normalizeToProviderError
                    (JsError (''Rate limit exceeded: queue full for provider '' @ p)) p)),
             router, tried @ [p])
          \<and> stream_loop env request maxRetries attempts selected lastError router tried out =
            (out, Some (ProviderErr (normalizeToProviderError
                    (JsError (''Rate limit exceeded: queue full for provider '' @ p)) p)),
             router, tried @ [p]))
       \<and> (resolveModelAlias router (req_model request) = Inr cs
            \<and> fst (selectProvider router (clock_at env 0) cs) = Some selected
            \<and> provider selected = p \<and> limiter_at env 1 = rl \<and> clock_at env 1 = now
            \<and> 0 < maxRetries \<longrightarrow>
          handleCompletion env maxRetries router request =
            (Inl (ProviderErr (normalizeToProviderError
                    (JsError (''Rate limit exceeded: queue full for provider '' @ p)) p)),
             snd (selectProvider router (clock_at env 0) cs), [p])
          \<and> stream_frames env maxRetries router request =
            ([], Some (ProviderErr (normalizeToProviderError
                    (JsError (''Rate limit exceeded: queue full for provider '' @ p)) p)),
             snd (selectProvider router (clock_at env 0) cs), [p]))
       \<and> err_type (normalizeToProviderError
                     (JsError (''Rate limit exceeded: queue full for provider '' @ p)) p) = unknown
       \<and> \<not> retryable (normalizeToProviderError
                     (JsError (''Rate limit exceeded: queue full for provider '' @ p)) p)
       \<and> errorHandler (ProviderErr (normalizeToProviderError
                     (JsError (''Rate limit exceeded: queue full for provider '' @ p)) p))
           = (500, \<lparr> oe_message = ''Rate limit exceeded: queue full for provider '' @ p,
                     oe_type = ''server_error'', oe_param = None, oe_code = None \<rparr>)"
proof -
  let ?pe = "normalizeToProviderError
               (JsError (''Rate limit exceeded: queue full for provider '' @ p)) p"
  have loops:
    "completion_loop env' request maxRetries k sel lastError' r tr =
       (Inl (ProviderErr ?pe), r, tr @ [p])
     \<and> stream_loop env' request maxRetries k sel lastError' r tr out' =
       (out', Some (ProviderErr ?pe), r, tr @ [p])"
    if h: "k < maxRetries \<and> provider sel = p \<and> limiter_at env' (Suc k) = rl
           \<and> clock_at env' (Suc k) = now"
    for env' k sel lastError' r tr out'
  proof -
    from h have aw: "await_acquire env' (Suc k) (provider sel) =
        Some (JsError (''Rate limit exceeded: queue full for provider '' @ p))"
      using await_acquire_queue_full[OF assms, of env' "Suc k"] by simp
    have c: "completion_loop env' request maxRetries k sel lastError' r tr =
               (Inl (ProviderErr ?pe), r, tr @ [p])"
      using h aw
      by (subst completion_loop.simps)
         (simp add: completion_attempt_def normalizeToProviderError_def Let_def)
    have s: "stream_loop env' request maxRetries k sel lastError' r tr out' =
               (out', Some (ProviderErr ?pe), r, tr @ [p])"
      using h aw
      by (subst stream_loop.simps)
         (simp add: stream_attempt_def normalizeToProviderError_def Let_def)
    from c s show ?thesis by simp
  qed
  have first: "fst (acquire rl now p) =
           PromiseRejected (''Rate limit exceeded: queue full for provider '' @ p)"
    by (rule acquire_reject[OF assms])
  have handle:
    "handleCompletion env maxRetries router request =
       (Inl (ProviderErr ?pe), snd (selectProvider router (clock_at env 0) cs), [p])
     \<and> stream_frames env maxRetries router request =
       ([], Some (ProviderErr ?pe), snd (selectProvider router (clock_at env 0) cs), [p])"
    if h: "resolveModelAlias router (req_model request) = Inr cs
            \<and> fst (selectProvider router (clock_at env 0) cs) = Some selected
            \<and> provider selected = p \<and> limiter_at env 1 = rl \<and> clock_at env 1 = now
            \<and> 0 < maxRetries"
  proof -
    obtain r1 where sel: "selectProvider router (clock_at env 0) cs = (Some selected, r1)"
      using h by (cases "selectProvider router (clock_at env 0) cs") auto
    from h have "0 < maxRetries \<and> provider selected = p \<and> limiter_at env (Suc 0) = rl
           \<and> clock_at env (Suc 0) = now" by simp
    from loops[OF this]
    have "completion_loop env request maxRetries 0 selected None r1 [] =
            (Inl (ProviderErr ?pe), r1, [] @ [p])
          \<and> stream_loop env request maxRetries 0 selected None r1 [] [] =
            ([], Some (ProviderErr ?pe), r1, [] @ [p])"
      by blast
    with h sel show ?thesis by (simp add: handleCompletion_def stream_frames_def)
  qed
  have kind: "err_type ?pe = unknown \<and> \<not> retryable ?pe"
    by (simp add: normalizeToProviderError_def)
  have http: "errorHandler (ProviderErr ?pe)
           = (500, \<lparr> oe_message = ''Rate limit exceeded: queue full for provider '' @ p,
                     oe_type = ''server_error'', oe_param = None, oe_code = None \<rparr>)"
    by (simp add: normalizeToProviderError_def errorHandler_def getHttpStatus_def formatError_def)
  have here:
    "attempts < maxRetries \<and> provider selected = p
       \<and> limiter_at env (Suc attempts) = rl \<and> clock_at env (Suc attempts) = now \<longrightarrow>
     completion_loop env request maxRetries attempts selected lastError router tried =
       (Inl (ProviderErr ?pe), router, tried @ [p])
     \<and> stream_loop env request maxRetries attempts selected lastError router tried out =
       (out, Some (ProviderErr ?pe), router, tried @ [p])"
    using loops by blast
  from first here handle kind http
  show ?thesis by blast
qed

theorem queue_full_error_classification_witness:
  "fst (acquire ex_limiter_full 5 ''openai'')
     = PromiseRejected ''Rate limit exceeded: queue full for provider openai''
   \<and> fst (handleCompletion (ex_env ex_limiter_full [''openai'' \<mapsto> ex_adapter_ok]) 3 ex_router ex_request)
       = Inl (ProviderErr \<lparr> err_provider = ''openai'', statusCode = None,
                message = ''Rate limit exceeded: queue full for provider openai'',
                err_type = unknown, retryable = False \<rparr>)
   \<and> snd (snd (handleCompletion (ex_env ex_limiter_full [''openai'' \<mapsto> ex_adapter_ok]) 3 ex_router
                  ex_request)) = [''openai'']
   \<and> snd (snd (completion_loop (ex_env ex_limiter_full [''openai'' \<mapsto> ex_adapter_ok]) ex_request 3 1
                  ex_fast None ex_router [''gemini''])) = [''gemini'', ''openai'']"
proof -
  let ?cfg = "\<lparr> cfg_provider = ''openai'', requestsPerMinute = 1, maxQueueSize = 1 \<rparr>"
  let ?env = "ex_env ex_limiter_full [''openai'' \<mapsto> ex_adapter_ok]"
  have a: "configs ex_limiter_full ''openai'' = Some ?cfg" by (simp add: ex_limiter_full_eq)
  have b: "requestsPerMinute ?cfg \<le> int (length (window ex_limiter_full 5 ''openai''))"
    by (simp add: ex_limiter_full_eq limiter_eval)
  have c: "maxQueueSize ?cfg \<le> int (length (get_or_empty (map_of (queues ex_limiter_full) ''openai'')))"
    by (simp add: ex_limiter_full_eq limiter_eval)
  have d: "resolveModelAlias ex_router (req_model ex_request) = Inr [ex_openai, ex_gemini]
            \<and> fst (selectProvider ex_router (clock_at ?env 0) [ex_openai, ex_gemini]) = Some ex_openai
            \<and> provider ex_openai = ''openai'' \<and> limiter_at ?env 1 = ex_limiter_full
            \<and> clock_at ?env 1 = 5 \<and> (0::nat) < 3"
    by (simp add: router_eval ex_request_def ex_env_def)
  have e: "(1::nat) < 3 \<and> provider ex_fast = ''openai'' \<and> limiter_at ?env (Suc 1) = ex_limiter_full
            \<and> clock_at ?env (Suc 1) = 5"
    by (simp add: ex_fast_def ex_env_def)
  from queue_full_error_classification[OF a b c,
      where router = ex_router and request = ex_request and cs = "[ex_openai, ex_gemini]"
        and env = ?env and selected = ex_openai and maxRetries = 3] d
  have first: "fst (acquire ex_limiter_full 5 ''openai'')
     = PromiseRejected ''Rate limit exceeded: queue full for provider openai''
   \<and> fst (handleCompletion ?env 3 ex_router ex_request)
       = Inl (ProviderErr \<lparr> err_provider = ''openai'', statusCode = None,
                message = ''Rate limit exceeded: queue full for provider openai'',
                err_type = unknown, retryable = False \<rparr>)
   \<and> snd (snd (handleCompletion ?env 3 ex_router ex_request)) = [''openai'']"
    by (simp add: normalizeToProviderError_def)
  from queue_full_error_classification[OF a b c,
      where router = ex_router and request = ex_request and env = ?env and selected = ex_fast
        and maxRetries = 3 and attempts = 1 and lastError = None and tried = "[''gemini'']"] e
  have "snd (snd (completion_loop ?env ex_request 3 1 ex_fast None ex_router [''gemini'']))
          = [''gemini'', ''openai'']"
    by simp
  with first show ?thesis by simp
qed

text \<open>
  The claim as it was stated fails: with the window and the queue full, the error that
  reaches the error handler has kind \<open>unknown\<close> and is answered with 500, \<open>server_error\<close>.
\<close>

theorem queue_full_not_rate_limit_counterexample:
  "int (length (window ex_limiter_full 5 ''openai'')) = 1
   \<and> int (length (get_or_empty (map_of (queues ex_limiter_full) ''openai''))) = 1
   \<and> fst (acquire ex_limiter_full 5 ''openai'')
       = PromiseRejected ''Rate limit exceeded: queue full for provider openai''
   \<and> fst (handleCompletion (ex_env ex_limiter_full [''openai'' \<mapsto> ex_adapter_ok]) 3 ex_router ex_request)
       = Inl (ProviderErr \<lparr> err_provider = ''openai'', statusCode = None,
                message = ''Rate limit exceeded: queue full for provider openai'',
                err_type = unknown, retryable = False \<rparr>)
   \<and> errorHandler (ProviderErr \<lparr> err_provider = ''openai'', statusCode = None,
                message = ''Rate limit exceeded: queue full for provider openai'',
                err_type = unknown, retryable = False \<rparr>)
       = (500, \<lparr> oe_message = ''Rate limit exceeded: queue full for provider openai'',
                 oe_type = ''server_error'', oe_param = None, oe_code = None \<rparr>)"
  by (simp add: ex_limiter_full_eq limiter_eval dispatch_eval router_eval completion_loop.simps
      errorHandler_def getHttpStatus_def formatError_def)

end
